theory Spec2Isabelle
  imports Main "HOL-Library.Sublist"
begin

section \<open>JavaScript strings\<close>

text \<open>
  The string methods the locator uses. \<open>s.startsWith(p)\<close>, \<open>s.endsWith(p)\<close> and
  \<open>s.includes(p)\<close> are the prefix, suffix and contiguous-sublist relations of
  the library theory \<open>Sublist\<close>.
\<close>

abbreviation startsWith :: "string \<Rightarrow> string \<Rightarrow> bool" where
  "startsWith s p \<equiv> prefix p s"

abbreviation endsWith :: "string \<Rightarrow> string \<Rightarrow> bool" where
  "endsWith s p \<equiv> suffix p s"

abbreviation includes_str :: "string \<Rightarrow> string \<Rightarrow> bool" where
  "includes_str s p \<equiv> sublist p s"

text \<open>\<open>s.split(c)\<close> for a one-character separator: empty pieces are kept, and the
  empty string splits into one empty piece.\<close>

fun split :: "char \<Rightarrow> string \<Rightarrow> string list" where
  "split c [] = [[]]"
| "split c (x # xs) =
     (if x = c then [] # split c xs
      else (case split c xs of [] \<Rightarrow> [[x]] | s # ss \<Rightarrow> (x # s) # ss))"

text \<open>\<open>pieces.join(sep)\<close>.\<close>

fun join_with :: "string \<Rightarrow> string list \<Rightarrow> string" where
  "join_with sep [] = []"
| "join_with sep [x] = x"
| "join_with sep (x # y # ys) = x @ sep @ join_with sep (y # ys)"

text \<open>\<open>s.replace(/\*$/, '')\<close>: one trailing asterisk is removed.\<close>

definition replace_star :: "string \<Rightarrow> string" where
  "replace_star s = (if endsWith s ''*'' then butlast s else s)"

text \<open>\<open>s.replace(/\/\*$/, '')\<close>: a trailing slash-asterisk is removed.\<close>

definition replace_slash_star :: "string \<Rightarrow> string" where
  "replace_slash_star s = (if endsWith s ''/*'' then take (length s - 2) s else s)"

text \<open>Truthiness of a value of type \<open>string | null | undefined\<close>: \<open>None\<close> stands for
  both \<open>null\<close> and \<open>undefined\<close>, and the empty string is falsy.\<close>

definition truthy :: "string option \<Rightarrow> bool" where
  "truthy v = (case v of None \<Rightarrow> False | Some s \<Rightarrow> s \<noteq> [])"

text \<open>
  Reading a property \<open>obj[key]\<close> of a plain object. The object is the list of its own
  properties with their values, each key once, in declaration order. A key that is not
  an own property is looked up in \<open>Object.prototype\<close>, whose members are fixed by the
  language; such a member is a function, or for \<open>__proto__\<close> the prototype object itself:
  truthy, and not iterable. Any other key reads as \<open>undefined\<close>.
\<close>

definition objectPrototypeMembers :: "string list" where
  "objectPrototypeMembers =
     [''constructor'', ''hasOwnProperty'', ''isPrototypeOf'', ''propertyIsEnumerable'',
      ''toLocaleString'', ''toString'', ''valueOf'', ''__proto__'', ''__defineGetter__'',
      ''__defineSetter__'', ''__lookupGetter__'', ''__lookupSetter__'']"

datatype 'a propertyValue = Undefined | Own 'a | Inherited string

definition readProperty :: "(string \<times> 'a) list \<Rightarrow> string \<Rightarrow> 'a propertyValue" where
  "readProperty obj key =
     (case map_of obj key of
        Some v \<Rightarrow> Own v
      | None \<Rightarrow> if key \<in> set objectPrototypeMembers then Inherited key else Undefined)"

text \<open>The \<open>name\<close> property of an inherited member: a function has its own name, which
  for \<open>constructor\<close> is \<open>Object\<close>; the prototype object has none.\<close>

definition memberName :: "string \<Rightarrow> string option" where
  "memberName m =
     (if m = ''__proto__'' then None
      else if m = ''constructor'' then Some ''Object''
      else Some m)"


section \<open>The \<open>path\<close> module of the host, on a POSIX platform\<close>

text \<open>
  \<open>normalizeString\<close> walks the pieces between slashes with a stack: an empty piece and
  \<open>.\<close> are dropped, \<open>..\<close> removes the piece before it unless there is none or it is
  itself \<open>..\<close> (then \<open>..\<close> is kept when \<open>allowAboveRoot\<close>), anything else is pushed.
\<close>

definition normalize_step :: "bool \<Rightarrow> string list \<Rightarrow> string \<Rightarrow> string list" where
  "normalize_step allowAboveRoot res seg =
     (if seg = [] \<or> seg = ''.'' then res
      else if seg = ''..'' then
        (if res \<noteq> [] \<and> last res \<noteq> ''..'' then butlast res
         else if allowAboveRoot then res @ [''..'']
         else res)
      else res @ [seg])"

definition normalizeSegments :: "string \<Rightarrow> bool \<Rightarrow> string list" where
  "normalizeSegments p allowAboveRoot =
     foldl (normalize_step allowAboveRoot) [] (split CHR ''/'' p)"

definition normalizeString :: "string \<Rightarrow> bool \<Rightarrow> string" where
  "normalizeString p allowAboveRoot = join_with ''/'' (normalizeSegments p allowAboveRoot)"

definition posix_normalize :: "string \<Rightarrow> string" where
  "posix_normalize p =
     (if p = [] then ''.''
      else
        let isAbsolute = (hd p = CHR ''/'');
            trailingSeparator = (last p = CHR ''/'');
            q = normalizeString p (\<not> isAbsolute)
        in if q = [] then
             (if isAbsolute then ''/'' else if trailingSeparator then ''./'' else ''.'')
           else
             (let q' = (if trailingSeparator then q @ ''/'' else q)
              in if isAbsolute then ''/'' @ q' else q'))"

text \<open>\<open>posix.join(...args)\<close>; \<open>join\<close> of \<open>path\<close> is the same function on a POSIX
  platform.\<close>

definition posix_join :: "string list \<Rightarrow> string" where
  "posix_join args =
     (let joined = join_with ''/'' (filter (\<lambda>a. a \<noteq> []) args)
      in if joined = [] then ''.'' else posix_normalize joined)"

text \<open>\<open>dirname(p)\<close>: trailing slashes are skipped, then the last piece; what is in
  front of the slash before that piece is returned. The first character is never
  examined by the scan.\<close>

definition dirname :: "string \<Rightarrow> string" where
  "dirname p =
     (case p of
        [] \<Rightarrow> ''.''
      | c # t \<Rightarrow>
          (let hasRoot = (c = CHR ''/'');
               r = dropWhile (\<lambda>x. x \<noteq> CHR ''/'') (dropWhile (\<lambda>x. x = CHR ''/'') (rev t))
           in case r of
                [] \<Rightarrow> (if hasRoot then ''/'' else ''.'')
              | _ # front \<Rightarrow> (if hasRoot \<and> front = [] then ''//'' else c # rev front)))"

text \<open>\<open>posix.resolve(p)\<close> with one argument, against the working directory \<open>cwd\<close>
  of the process (an absolute path).\<close>

definition posix_resolve :: "string \<Rightarrow> string \<Rightarrow> string" where
  "posix_resolve cwd p =
     (let abs1 = (p \<noteq> [] \<and> hd p = CHR ''/'');
          rp = (if p = [] then [] else p @ ''/'');
          rp' = (if abs1 \<or> cwd = [] then rp else cwd @ ''/'' @ rp);
          resolvedAbsolute = (abs1 \<or> (cwd \<noteq> [] \<and> hd cwd = CHR ''/''));
          q = normalizeString rp' (\<not> resolvedAbsolute)
      in if resolvedAbsolute then ''/'' @ q else if q \<noteq> [] then q else ''.'')"

fun strip_common :: "string list \<Rightarrow> string list \<Rightarrow> string list \<times> string list" where
  "strip_common (x # xs) (y # ys) = (if x = y then strip_common xs ys else (x # xs, y # ys))"
| "strip_common xs ys = (xs, ys)"

text \<open>\<open>relative(from, to)\<close>: both paths are resolved, their common leading pieces
  are dropped, and the result climbs out of what is left of \<open>from\<close> and descends
  into what is left of \<open>to\<close>.\<close>

definition posix_relative :: "string \<Rightarrow> string \<Rightarrow> string \<Rightarrow> string" where
  "posix_relative cwd from to =
     (if from = to then []
      else
        let f = posix_resolve cwd from; t = posix_resolve cwd to
        in if f = t then []
           else
             (let (fs, ts) = strip_common (normalizeSegments f False) (normalizeSegments t False)
              in join_with ''/'' (replicate (length fs) ''..'' @ ts)))"


section \<open>Data model\<close>

record ProjectGraphProjectNode =
  name :: string
  data_root :: string

record ProjectGraphExternalNode =
  ext_name :: string
  data_packageName :: string
  data_version :: string

type_synonym PathMappings = "(string \<times> string list) list"

text \<open>The root compiler configuration as far as the locator reads it:
  \<open>config?.compilerOptions?.paths\<close>.\<close>

record TsConfigJson =
  compilerOptions_paths :: "PathMappings option"

record RootTsConfig =
  path :: "string option"
  absolutePath :: "string option"
  config :: "TsConfigJson option"

text \<open>A \<open>Map<string, string | null>\<close>: \<open>None\<close> is an absent key, \<open>Some None\<close> a key
  mapped to \<open>null\<close>.\<close>

type_synonym ResolutionCache = "string \<rightharpoonup> string option"

record TargetProjectLocator =
  nodes :: "(string \<times> ProjectGraphProjectNode) list"
  externalNodes :: "(string \<times> ProjectGraphExternalNode) list"
  projectRootMappings :: "string \<rightharpoonup> string"
  npmProjects :: "ProjectGraphExternalNode list"
  tsConfig :: RootTsConfig
  paths :: "PathMappings option"
  typescriptResolutionCache :: ResolutionCache
  npmResolutionCache :: ResolutionCache

datatype exn = Thrown string

datatype json =
    JNull
  | JBool bool
  | JNumber int
  | JString string
  | JArray "json list"
  | JObject "(string \<times> json) list"

text \<open>
  What the locator imports from outside: the host's builtin module list, the workspace
  root, the working directory, and the collaborators that touch the file system or run
  a module resolution. Each collaborator is a function of its arguments that returns a
  value or throws.
\<close>

record Host =
  builtinModules :: "string list"
  workspaceRoot :: string
  cwd :: string
  getRootTsConfigFileName :: "string option"
  readJsonFile :: "string \<Rightarrow> exn + TsConfigJson option"
  findExternalPackageJsonPath :: "string \<Rightarrow> string \<Rightarrow> exn + string option"
  readFileSync :: "string \<Rightarrow> exn + string"
  parseJson :: "string \<Rightarrow> exn + json"
  resolveModuleByImport :: "string \<Rightarrow> string \<Rightarrow> string option \<Rightarrow> exn + string option"
  require_resolve :: "string \<Rightarrow> string \<Rightarrow> exn + string"

text \<open>The collaborator calls a resolution performs, in order.\<close>

datatype call =
    FindExternalPackageJsonPath string string
  | ReadFileSync string
  | ResolveModuleByImport string string "string option"
  | RequireResolve string string


section \<open>The project root index\<close>

text \<open>Modelled from the spec: \<open>isRelativePath\<close> of \<open>utils/fileutils\<close> is not among
  the sources. The spec calls the specifiers of the first strategy "syntactically
  relative": the specifier is \<open>.\<close> or \<open>..\<close>, or starts with \<open>./\<close> or \<open>../\<close>.\<close>

definition isRelativePath :: "string \<Rightarrow> bool" where
  "isRelativePath p \<longleftrightarrow>
     p = ''.'' \<or> p = ''..'' \<or> startsWith p ''./'' \<or> startsWith p ''../''"

text \<open>Modelled from the spec: normalising a root path "to a single separator
  convention" turns every backslash into a slash.\<close>

definition normalizePath :: "string \<Rightarrow> string" where
  "normalizePath p = map (\<lambda>c. if c = CHR 0x5C then CHR ''/'' else c) p"

text \<open>Modelled from the spec: \<open>createProjectRootMappings\<close> of
  \<open>project-graph/utils/find-project-for-path\<close> is not among the sources. The index is
  "built once from all ProjectNodes by normalizing each root path" and "maps normalized
  project root paths to project identifiers"; a later node replaces an earlier one with
  the same root, as setting a key of a map does.\<close>

definition createProjectRootMappings ::
  "(string \<times> ProjectGraphProjectNode) list \<Rightarrow> (string \<rightharpoonup> string)" where
  "createProjectRootMappings ns =
     foldl (\<lambda>m (projectName, node). m(normalizePath (data_root node) \<mapsto> projectName))
       Map.empty ns"

text \<open>The path itself and the directories that enclose it, the longest first.\<close>

definition enclosing :: "string \<Rightarrow> string list" where
  "enclosing p =
     (let segs = split CHR ''/'' p
      in map (\<lambda>n. join_with ''/'' (take n segs)) (rev [1..<Suc (length segs)]))"

text \<open>Modelled from the spec: \<open>findProjectForPath\<close> of the same absent module
  "exposes \<open>findProjectForPath(path) -> id | none\<close> using longest-matching-prefix among
  project roots": the longest root that is the path or a directory enclosing it.\<close>

definition findProjectForPath :: "string \<Rightarrow> (string \<rightharpoonup> string) \<Rightarrow> string option" where
  "findProjectForPath filePath m =
     (case List.find (\<lambda>d. m d \<noteq> None) (enclosing (normalizePath filePath)) of
        None \<Rightarrow> None
      | Some d \<Rightarrow> m d)"


section \<open>\<open>TargetProjectLocator\<close>\<close>

definition builtInModuleSet :: "Host \<Rightarrow> string set" where
  "builtInModuleSet host =
     set (builtinModules host @ map (\<lambda>x. ''node:'' @ x) (builtinModules host))"

definition getRootTsConfig :: "Host \<Rightarrow> exn + RootTsConfig" where
  "getRootTsConfig host =
     (if \<not> truthy (getRootTsConfigFileName host) then
        Inr \<lparr>path = None, absolutePath = None, config = None\<rparr>
      else
        let p = the (getRootTsConfigFileName host);
            a = posix_join [workspaceRoot host, p]
        in case readJsonFile host a of
             Inl e \<Rightarrow> Inl e
           | Inr c \<Rightarrow> Inr \<lparr>path = Some p, absolutePath = Some a, config = c\<rparr>)"

text \<open>The field initialisers and the constructor. Reading the root configuration may
  throw; then no locator is built.\<close>

definition new_TargetProjectLocator ::
  "Host \<Rightarrow> (string \<times> ProjectGraphProjectNode) list \<Rightarrow>
   (string \<times> ProjectGraphExternalNode) list \<Rightarrow> exn + TargetProjectLocator" where
  "new_TargetProjectLocator host ns exts =
     (case getRootTsConfig host of
        Inl e \<Rightarrow> Inl e
      | Inr ts \<Rightarrow>
          Inr \<lparr>nodes = ns,
               externalNodes = exts,
               projectRootMappings = createProjectRootMappings ns,
               npmProjects = map snd (filter (\<lambda>(k, _). startsWith k ''npm:'') exts),
               tsConfig = ts,
               paths = (case config ts of None \<Rightarrow> None | Some c \<Rightarrow> compilerOptions_paths c),
               typescriptResolutionCache = Map.empty,
               npmResolutionCache = Map.empty\<rparr>)"

text \<open>\<open>findMatchingProjectFiles\<close> reads \<open>this.nodes[project]\<close> also when the index found
  nothing: then the key read is \<open>undefined\<close>.\<close>

definition findMatchingProjectFiles ::
  "TargetProjectLocator \<Rightarrow> string \<Rightarrow> ProjectGraphProjectNode propertyValue" where
  "findMatchingProjectFiles this file =
     (let project = (case findProjectForPath file (projectRootMappings this) of
                       None \<Rightarrow> ''undefined''
                     | Some found \<Rightarrow> found)
      in readProperty (nodes this) project)"

definition findProjectOfResolvedModule :: "TargetProjectLocator \<Rightarrow> string \<Rightarrow> string option" where
  "findProjectOfResolvedModule this resolvedModule =
     (if startsWith resolvedModule ''node_modules/'' \<or> includes_str resolvedModule ''/node_modules/''
      then None
      else
        let normalizedResolvedModule =
              (if startsWith resolvedModule ''./'' then drop 2 resolvedModule else resolvedModule)
        in case findMatchingProjectFiles this normalizedResolvedModule of
             Undefined \<Rightarrow> None
           | Own importedProject \<Rightarrow> Some (name importedProject)
           | Inherited m \<Rightarrow> memberName m)"

definition parsePackageNameFromImportExpression :: "string \<Rightarrow> string" where
  "parsePackageNameFromImportExpression importExpression =
     (if startsWith importExpression ''@''
      then join_with ''/'' (take 2 (split CHR ''/'' importExpression))
      else hd (split CHR ''/'' importExpression))"

text \<open>\<open>findPaths\<close>. The alias table is the list of the own properties of \<open>paths\<close>
  with their target lists, each key once, in declaration order; a key that ends in \<open>/*\<close>
  is never an array index, so the order of the wildcard keys is the one they were
  written in. The first test reads \<open>this.paths[normalizedImportExpr]\<close>, which for a key
  that is not declared may be an inherited member; the result then pairs the specifier
  with that member instead of a target list.\<close>

definition wildcardMatches :: "string \<Rightarrow> string \<Rightarrow> bool" where
  "wildcardMatches normalizedImportExpr p \<longleftrightarrow>
     endsWith p ''/*'' \<and>
     (startsWith normalizedImportExpr (replace_star p) \<or>
      normalizedImportExpr = replace_slash_star p)"

definition findPaths ::
  "TargetProjectLocator \<Rightarrow> string \<Rightarrow> (string \<times> string list propertyValue) option" where
  "findPaths this normalizedImportExpr =
     (case paths this of
        None \<Rightarrow> None
      | Some ps \<Rightarrow>
          (case readProperty ps normalizedImportExpr of
             Own targets \<Rightarrow> Some (normalizedImportExpr, Own targets)
           | Inherited m \<Rightarrow> Some (normalizedImportExpr, Inherited m)
           | Undefined \<Rightarrow>
               (case List.find (wildcardMatches normalizedImportExpr) (map fst ps) of
                  None \<Rightarrow> None
                | Some wildcardPath \<Rightarrow> Some (wildcardPath, readProperty ps wildcardPath))))"

text \<open>The candidate of one target template \<open>p\<close> of the alias pattern \<open>pat\<close> (the
  variable \<open>path\<close> of the loop in \<open>findProjectWithImport\<close>).\<close>

definition expandTarget :: "Host \<Rightarrow> string \<Rightarrow> string \<Rightarrow> string \<Rightarrow> string" where
  "expandTarget host pat importExpr p =
     (if endsWith p ''/*''
      then posix_join [dirname p, posix_relative (cwd host) (replace_star pat) importExpr]
      else p)"

text \<open>The loop over the targets of the matching alias: the first candidate that lies
  in a project ends the resolution.\<close>

fun findInPaths ::
  "Host \<Rightarrow> TargetProjectLocator \<Rightarrow> string \<Rightarrow> string \<Rightarrow> string list \<Rightarrow> string option" where
  "findInPaths host this pat importExpr [] = None"
| "findInPaths host this pat importExpr (p # ps) =
     (let maybeResolvedProject =
            findProjectOfResolvedModule this (expandTarget host pat importExpr p)
      in if truthy maybeResolvedProject then maybeResolvedProject
         else findInPaths host this pat importExpr ps)"

text \<open>The path-mapping step of \<open>findProjectWithImport\<close>. The loop \<open>for (let p of paths)\<close>
  is outside any \<open>try\<close>: over a value that is not a target list it throws a
  \<open>TypeError\<close>, which leaves the method.\<close>

definition findProjectUsingPaths ::
  "Host \<Rightarrow> TargetProjectLocator \<Rightarrow> string \<Rightarrow> exn + string option" where
  "findProjectUsingPaths host this importExpr =
     (case findPaths this importExpr of
        None \<Rightarrow> Inr None
      | Some (pat, Own targets) \<Rightarrow> Inr (findInPaths host this pat importExpr targets)
      | Some (pat, _) \<Rightarrow> Inl (Thrown ''TypeError''))"

text \<open>Reading a property of a parsed descriptor: \<open>null\<close> has no properties and the
  access throws; a value that is not an object has none of the two properties read
  here (\<open>name\<close> and \<open>version\<close>, neither of which is inherited), and an object has its
  fields, each key once.\<close>

fun getProperty :: "json \<Rightarrow> string \<Rightarrow> exn + json option" where
  "getProperty JNull k = Inl (Thrown ''TypeError'')"
| "getProperty (JObject fs) k = Inr (map_of fs k)"
| "getProperty _ k = Inr None"

text \<open>\<open>this.npmProjects.find(...)\<close> with the callback that compares name and version.\<close>

fun findMatchingExternalNode ::
  "ProjectGraphExternalNode list \<Rightarrow> json \<Rightarrow> exn + ProjectGraphExternalNode option" where
  "findMatchingExternalNode [] j = Inr None"
| "findMatchingExternalNode (pkg # pkgs) j =
     (case getProperty j ''name'' of
        Inl e \<Rightarrow> Inl e
      | Inr n \<Rightarrow>
          if n = Some (JString (data_packageName pkg)) then
            (case getProperty j ''version'' of
               Inl e \<Rightarrow> Inl e
             | Inr v \<Rightarrow>
                 if v = Some (JString (data_version pkg)) then Inr (Some pkg)
                 else findMatchingExternalNode pkgs j)
          else findMatchingExternalNode pkgs j)"

definition npmCacheKey :: "string \<Rightarrow> string \<Rightarrow> string" where
  "npmCacheKey importExpr projectRoot =
     parsePackageNameFromImportExpression importExpr @ ''__'' @ projectRoot"

text \<open>The \<open>try\<close> block of \<open>findNpmPackage\<close> up to the search for the matching
  external node: whatever is thrown inside it ends in \<open>undefined\<close>, as does a descriptor
  that is not found and a descriptor that no npm project matches. With the node come the
  collaborator calls made.\<close>

definition installedExternalNode ::
  "Host \<Rightarrow> TargetProjectLocator \<Rightarrow> string \<Rightarrow> string \<Rightarrow>
   ProjectGraphExternalNode option \<times> call list" where
  "installedExternalNode host this packageName projectRoot =
     (let fullProjectRootPath = posix_join [workspaceRoot host, projectRoot];
          c1 = [FindExternalPackageJsonPath packageName fullProjectRootPath]
      in case findExternalPackageJsonPath host packageName fullProjectRootPath of
           Inl e \<Rightarrow> (None, c1)
         | Inr externalPackageJsonPath \<Rightarrow>
             if \<not> truthy externalPackageJsonPath then (None, c1)
             else
               (let f = the externalPackageJsonPath; c2 = c1 @ [ReadFileSync f]
                in case readFileSync host f of
                     Inl e \<Rightarrow> (None, c2)
                   | Inr content \<Rightarrow>
                       (case parseJson host content of
                          Inl e \<Rightarrow> (None, c2)
                        | Inr externalPackageJson \<Rightarrow>
                            (case findMatchingExternalNode (npmProjects this)
                                    externalPackageJson of
                               Inl e \<Rightarrow> (None, c2)
                             | Inr matchingExternalNode \<Rightarrow> (matchingExternalNode, c2)))))"

text \<open>\<open>findNpmPackage\<close>: a cached entry is returned as it is; otherwise only a node
  that was found is written to the cache. The result comes with the locator after the
  call and the collaborator calls made.\<close>

definition findNpmPackage ::
  "Host \<Rightarrow> TargetProjectLocator \<Rightarrow> string \<Rightarrow> string \<Rightarrow>
   string option \<times> TargetProjectLocator \<times> call list" where
  "findNpmPackage host this importExpr projectRoot =
     (let packageName = parsePackageNameFromImportExpression importExpr;
          npmImportForProject = npmCacheKey importExpr projectRoot
      in case npmResolutionCache this npmImportForProject of
           Some v \<Rightarrow> (v, this, [])
         | None \<Rightarrow>
             (case installedExternalNode host this packageName projectRoot of
                (None, c) \<Rightarrow> (None, this, c)
              | (Some matchingExternalNode, c) \<Rightarrow>
                  (Some (ext_name matchingExternalNode),
                   this\<lparr>npmResolutionCache :=
                     (npmResolutionCache this)
                       (npmImportForProject \<mapsto> Some (ext_name matchingExternalNode))\<rparr>,
                   c)))"

text \<open>The second half of \<open>resolveImportWithTypescript\<close>, after the resolved module has
  been read from the cache or computed.\<close>

definition projectOfTypescriptModule :: "TargetProjectLocator \<Rightarrow> string option \<Rightarrow> string option" where
  "projectOfTypescriptModule this resolvedModule =
     (if truthy resolvedModule \<and> \<not> includes_str (the resolvedModule) ''node_modules/'' then
        (let resolvedProject = findProjectOfResolvedModule this (the resolvedModule)
         in if truthy resolvedProject then resolvedProject else None)
      else None)"

text \<open>\<open>resolveImportWithTypescript\<close>: the call of \<open>resolveModuleByImport\<close> is not inside
  a \<open>try\<close>, so what it throws leaves the method.\<close>

definition resolveImportWithTypescript ::
  "Host \<Rightarrow> TargetProjectLocator \<Rightarrow> string \<Rightarrow> string \<Rightarrow>
   (exn + string option) \<times> TargetProjectLocator \<times> call list" where
  "resolveImportWithTypescript host this normalizedImportExpr filePath =
     (case typescriptResolutionCache this normalizedImportExpr of
        Some resolvedModule \<Rightarrow> (Inr (projectOfTypescriptModule this resolvedModule), this, [])
      | None \<Rightarrow>
          (let c = [ResolveModuleByImport normalizedImportExpr filePath (absolutePath (tsConfig this))]
           in case resolveModuleByImport host normalizedImportExpr filePath
                     (absolutePath (tsConfig this)) of
                Inl e \<Rightarrow> (Inl e, this, c)
              | Inr resolvedModule \<Rightarrow>
                  (let this' = this\<lparr>typescriptResolutionCache :=
                         (typescriptResolutionCache this)
                           (normalizedImportExpr \<mapsto>
                              (if truthy resolvedModule then resolvedModule else None))\<rparr>
                   in (Inr (projectOfTypescriptModule this' resolvedModule), this', c))))"

definition resolveImportWithRequire ::
  "Host \<Rightarrow> string \<Rightarrow> string \<Rightarrow> (exn + string) \<times> call list" where
  "resolveImportWithRequire host normalizedImportExpr filePath =
     (let d = dirname filePath; c = [RequireResolve normalizedImportExpr d]
      in case require_resolve host normalizedImportExpr d of
           Inl e \<Rightarrow> (Inl e, c)
         | Inr r \<Rightarrow> (Inr (posix_relative (cwd host) (workspaceRoot host) r), c))"

text \<open>The end of \<open>findProjectWithImport\<close>: the \<open>try\<close> around the runtime resolution,
  and the no-match entry written when it throws.\<close>

definition requireFallback ::
  "Host \<Rightarrow> TargetProjectLocator \<Rightarrow> string \<Rightarrow> string \<Rightarrow>
   (exn + string option) \<times> TargetProjectLocator \<times> call list" where
  "requireFallback host this importExpr filePath =
     (case resolveImportWithRequire host importExpr filePath of
        (Inr resolvedModule, c) \<Rightarrow>
          (Inr (findProjectOfResolvedModule this resolvedModule), this, c)
      | (Inl e, c) \<Rightarrow>
          (Inr None,
           this\<lparr>npmResolutionCache := (npmResolutionCache this)(importExpr \<mapsto> None)\<rparr>,
           c))"

text \<open>The language-resolution step and what follows it.\<close>

definition typescriptFallback ::
  "Host \<Rightarrow> TargetProjectLocator \<Rightarrow> string \<Rightarrow> string \<Rightarrow>
   (exn + string option) \<times> TargetProjectLocator \<times> call list" where
  "typescriptFallback host this importExpr filePath =
     (if config (tsConfig this) \<noteq> None then
        (case resolveImportWithTypescript host this importExpr filePath of
           (Inl e, this', c) \<Rightarrow> (Inl e, this', c)
         | (Inr resolvedProject, this', c) \<Rightarrow>
             if truthy resolvedProject then (Inr resolvedProject, this', c)
             else
               (case requireFallback host this' importExpr filePath of
                  (r, this'', c') \<Rightarrow> (r, this'', c @ c')))
      else requireFallback host this importExpr filePath)"

text \<open>
  \<open>findProjectWithImport\<close>. The result is \<open>Inl\<close> when an exception leaves the method
  and \<open>Inr\<close> of the returned value otherwise; with it come the locator after the call
  and the collaborator calls made during it, in order.
\<close>

definition findProjectWithImport ::
  "Host \<Rightarrow> TargetProjectLocator \<Rightarrow> string \<Rightarrow> string \<Rightarrow> string \<Rightarrow>
   (exn + string option) \<times> TargetProjectLocator \<times> call list" where
  "findProjectWithImport host this importExpr projectRoot filePath =
     (if isRelativePath importExpr then
        (let resolvedModule = posix_join [dirname filePath, importExpr]
         in (Inr (findProjectOfResolvedModule this resolvedModule), this, []))
      else
        (case findProjectUsingPaths host this importExpr of
           Inl e \<Rightarrow> (Inl e, this, [])
         | Inr maybeResolvedProject \<Rightarrow>
            if truthy maybeResolvedProject then (Inr maybeResolvedProject, this, [])
            else if importExpr \<in> builtInModuleSet host then
              (Inr None,
               this\<lparr>npmResolutionCache := (npmResolutionCache this)(importExpr \<mapsto> None)\<rparr>,
               [])
            else
              (case findNpmPackage host this importExpr projectRoot of
                 (npmProject, this', c) \<Rightarrow>
                   if truthy npmProject then (Inr npmProject, this', c)
                   else
                     (case typescriptFallback host this' importExpr filePath of
                        (r, this'', c') \<Rightarrow> (r, this'', c @ c')))))"


section \<open>Properties stated in the words of the specification\<close>

text \<open>The frame of a call: everything the constructor built is as before, only the two
  caches may differ.\<close>

definition cachesOnly :: "TargetProjectLocator \<Rightarrow> TargetProjectLocator \<Rightarrow> bool" where
  "cachesOnly this this' \<longleftrightarrow>
     nodes this' = nodes this \<and>
     externalNodes this' = externalNodes this \<and>
     projectRootMappings this' = projectRootMappings this \<and>
     npmProjects this' = npmProjects this \<and>
     tsConfig this' = tsConfig this \<and>
     paths this' = paths this"








text \<open>A specifier names an inherited member of the alias table when there is a table,
  the table does not declare the specifier, and \<open>Object.prototype\<close> has a member of that
  name.\<close>

definition namesInheritedMember :: "TargetProjectLocator \<Rightarrow> string \<Rightarrow> bool" where
  "namesInheritedMember this specifier =
     (case paths this of
        None \<Rightarrow> False
      | Some ps \<Rightarrow> map_of ps specifier = None \<and> specifier \<in> set objectPrototypeMembers)"

text \<open>The matching rule of the path-mapping resolver in the words of the
  specification: a pattern matches a specifier when it is equal to it, or when it ends
  in \<open>/*\<close> and the specifier starts with its fixed part (the pattern without \<open>/*\<close>)
  followed by a slash, or is the fixed part itself.\<close>

definition fixedPrefix :: "string \<Rightarrow> string" where
  "fixedPrefix p = take (length p - 2) p"

definition specWildcardMatch :: "string \<Rightarrow> string \<Rightarrow> bool" where
  "specWildcardMatch specifier p \<longleftrightarrow>
     endsWith p ''/*'' \<and>
     (startsWith specifier (fixedPrefix p @ ''/'') \<or> specifier = fixedPrefix p)"

definition specMatch :: "string \<Rightarrow> string \<Rightarrow> bool" where
  "specMatch specifier p \<longleftrightarrow> p = specifier \<or> specWildcardMatch specifier p"

text \<open>"Only the first pattern in declaration order that matches is used".\<close>

definition specFirstMatch :: "PathMappings \<Rightarrow> string \<Rightarrow> (string \<times> string list) option" where
  "specFirstMatch ps specifier = List.find (\<lambda>(p, targets). specMatch specifier p) ps"


section \<open>Workspaces used as examples\<close>

text \<open>A host with a root configuration holding the alias table \<open>ps\<close>, on which no
  package is installed and neither resolver finds anything; the runtime resolver
  reports that by throwing, as \<open>require.resolve\<close> does.\<close>

definition quietHost :: "PathMappings option \<Rightarrow> Host" where
  "quietHost ps =
     \<lparr>builtinModules = [''fs'', ''path''],
      workspaceRoot = ''/ws'',
      cwd = ''/ws'',
      getRootTsConfigFileName = Some ''tsconfig.base.json'',
      readJsonFile = (\<lambda>f. Inr (Some \<lparr>compilerOptions_paths = ps\<rparr>)),
      findExternalPackageJsonPath = (\<lambda>packageName dir. Inr None),
      readFileSync = (\<lambda>f. Inl (Thrown ''ENOENT'')),
      parseJson = (\<lambda>text. Inl (Thrown ''SyntaxError'')),
      resolveModuleByImport = (\<lambda>importExpr filePath tsConfigPath. Inr None),
      require_resolve = (\<lambda>importExpr dir. Inl (Thrown ''MODULE_NOT_FOUND''))\<rparr>"

definition projectNodes :: "(string \<times> string) list \<Rightarrow> (string \<times> ProjectGraphProjectNode) list" where
  "projectNodes = map (\<lambda>(n, r). (n, \<lparr>name = n, data_root = r\<rparr>))"

text \<open>The locator constructed on a host for the projects \<open>prs\<close> (name and root) and no
  external nodes.\<close>

definition locatorOn :: "Host \<Rightarrow> (string \<times> string) list \<Rightarrow> TargetProjectLocator" where
  "locatorOn host prs = projr (new_TargetProjectLocator host (projectNodes prs) [])"



text \<open>A host on which the package \<open>left-pad\<close> is installed in version \<open>1.2.0\<close>.\<close>

definition leftPadHost :: Host where
  "leftPadHost =
     (quietHost None)
       \<lparr>findExternalPackageJsonPath :=
          (\<lambda>packageName dir.
             if packageName = ''left-pad''
             then Inr (Some ''/ws/node_modules/left-pad/package.json'')
             else Inr None),
        readFileSync :=
          (\<lambda>f. if f = ''/ws/node_modules/left-pad/package.json''
               then Inr ''{ name: left-pad, version: 1.2.0 }''
               else Inl (Thrown ''ENOENT'')),
        parseJson :=
          (\<lambda>text. if text = ''{ name: left-pad, version: 1.2.0 }''
                  then Inr (JObject [(''name'', JString ''left-pad''),
                                     (''version'', JString ''1.2.0'')])
                  else Inl (Thrown ''SyntaxError''))\<rparr>"

text \<open>A locator on that host whose graph knows three versions of the package, two of
  them with the installed version.\<close>

definition leftPadLocator :: TargetProjectLocator where
  "leftPadLocator =
     projr (new_TargetProjectLocator leftPadHost (projectNodes [(''app1'', ''apps/app1'')])
       [(''npm:left-pad@1.0.0'',
           \<lparr>ext_name = ''npm:left-pad@1.0.0'', data_packageName = ''left-pad'',
            data_version = ''1.0.0''\<rparr>),
        (''npm:left-pad'',
           \<lparr>ext_name = ''npm:left-pad'', data_packageName = ''left-pad'',
            data_version = ''1.2.0''\<rparr>),
        (''npm:left-pad@again'',
           \<lparr>ext_name = ''npm:left-pad@again'', data_packageName = ''left-pad'',
            data_version = ''1.2.0''\<rparr>)])"


text \<open>A host whose runtime resolver finds the package \<open>lib-a\<close> in the workspace, through
  a link from the installed-dependency directory to \<open>libs/a\<close>.\<close>

definition linkedHost :: Host where
  "linkedHost =
     (quietHost None)
       \<lparr>require_resolve :=
          (\<lambda>importExpr dir.
             if importExpr = ''lib-a'' then Inr ''/ws/libs/a/index.js''
             else Inl (Thrown ''MODULE_NOT_FOUND''))\<rparr>"






text \<open>A locator on the host with \<open>left-pad\<close> installed whose graph holds the matching
  external node under a key without the \<open>npm:\<close> prefix.\<close>

definition unprefixedLocator :: TargetProjectLocator where
  "unprefixedLocator =
     projr (new_TargetProjectLocator leftPadHost (projectNodes [(''app1'', ''apps/app1'')])
       [(''left-pad'',
           \<lparr>ext_name = ''left-pad'', data_packageName = ''left-pad'',
            data_version = ''1.2.0''\<rparr>)])"


section \<open>The steps of \<open>findProjectWithImport\<close>\<close>

lemma findProjectWithImport_steps:
  obtains
    (rel) "isRelativePath e"
      "findProjectWithImport host this e root f =
         (Inr (findProjectOfResolvedModule this (posix_join [dirname f, e])), this, [])"
  | (thrown) x where "\<not> isRelativePath e" "findProjectUsingPaths host this e = Inl x"
      "findProjectWithImport host this e root f = (Inl x, this, [])"
  | (aliased) v where "\<not> isRelativePath e" "findProjectUsingPaths host this e = Inr v" "truthy v"
      "findProjectWithImport host this e root f = (Inr v, this, [])"
  | (builtin_name) v where "\<not> isRelativePath e" "findProjectUsingPaths host this e = Inr v"
      "\<not> truthy v" "e \<in> builtInModuleSet host"
      "findProjectWithImport host this e root f =
         (Inr None, this\<lparr>npmResolutionCache := (npmResolutionCache this)(e \<mapsto> None)\<rparr>, [])"
  | (npm) v n t1 c1 where "\<not> isRelativePath e" "findProjectUsingPaths host this e = Inr v"
      "\<not> truthy v" "e \<notin> builtInModuleSet host"
      "findNpmPackage host this e root = (n, t1, c1)" "truthy n"
      "findProjectWithImport host this e root f = (Inr n, t1, c1)"
  | (fallback) v n t1 c1 r t2 c2 where "\<not> isRelativePath e"
      "findProjectUsingPaths host this e = Inr v" "\<not> truthy v" "e \<notin> builtInModuleSet host"
      "findNpmPackage host this e root = (n, t1, c1)" "\<not> truthy n"
      "typescriptFallback host t1 e f = (r, t2, c2)"
      "findProjectWithImport host this e root f = (r, t2, c1 @ c2)"
proof (cases "isRelativePath e")
  case True
  then show thesis
    by (intro rel) (simp_all add: findProjectWithImport_def Let_def)
next
  case nr: False
  show thesis
  proof (cases "findProjectUsingPaths host this e")
    case (Inl x)
    with nr show thesis
      by (intro thrown [of x]) (simp_all add: findProjectWithImport_def)
  next
    case (Inr v)
    show thesis
    proof (cases "truthy v")
      case True
      with nr Inr show thesis
        by (intro aliased [of v]) (simp_all add: findProjectWithImport_def)
    next
      case nt: False
      show thesis
      proof (cases "e \<in> builtInModuleSet host")
        case True
        with nr Inr nt show thesis
          by (intro builtin_name [of v]) (simp_all add: findProjectWithImport_def)
      next
        case nb: False
        obtain n t1 c1 where np: "findNpmPackage host this e root = (n, t1, c1)"
          by (cases "findNpmPackage host this e root") auto
        show thesis
        proof (cases "truthy n")
          case True
          with nr Inr nt nb np show thesis
            by (intro npm [of v n t1 c1]) (simp_all add: findProjectWithImport_def)
        next
          case nn: False
          obtain r t2 c2 where tf: "typescriptFallback host t1 e f = (r, t2, c2)"
            by (cases "typescriptFallback host t1 e f") auto
          with nr Inr nt nb np nn show thesis
            by (intro fallback [of v n t1 c1 r t2 c2]) (simp_all add: findProjectWithImport_def)
        qed
      qed
    qed
  qed
qed

section \<open>The frame of a call\<close>

lemma cachesOnly_trans: "cachesOnly a b \<Longrightarrow> cachesOnly b c \<Longrightarrow> cachesOnly a c"
  by (simp add: cachesOnly_def)

lemma findNpmPackage_frame:
  "findNpmPackage host this e root = (v, this', c) \<Longrightarrow> cachesOnly this this'"
  by (auto simp: findNpmPackage_def Let_def cachesOnly_def split: option.splits prod.splits)

lemma resolveImportWithTypescript_frame:
  "resolveImportWithTypescript host this e f = (r, this', c) \<Longrightarrow> cachesOnly this this'"
  by (auto simp: resolveImportWithTypescript_def Let_def cachesOnly_def split: option.splits sum.splits)

lemma requireFallback_frame:
  "requireFallback host this e f = (r, this', c) \<Longrightarrow> cachesOnly this this'"
  by (auto simp: requireFallback_def cachesOnly_def split: prod.splits sum.splits)

lemma typescriptFallback_frame:
  assumes "typescriptFallback host this e f = (r, this', c)"
  shows "cachesOnly this this'"
proof (cases "config (tsConfig this) = None")
  case True
  with assms show ?thesis
    by (simp add: typescriptFallback_def requireFallback_frame)
next
  case False
  obtain r1 t1 c1 where ts: "resolveImportWithTypescript host this e f = (r1, t1, c1)"
    by (cases "resolveImportWithTypescript host this e f") auto
  have f1: "cachesOnly this t1" by (rule resolveImportWithTypescript_frame [OF ts])
  show ?thesis
  proof (cases r1)
    case (Inl x)
    with assms False ts f1 show ?thesis by (simp add: typescriptFallback_def)
  next
    case (Inr v)
    show ?thesis
    proof (cases "truthy v")
      case True
      with assms False ts f1 Inr show ?thesis by (simp add: typescriptFallback_def)
    next
      case nt: False
      obtain r2 t2 c2 where rq: "requireFallback host t1 e f = (r2, t2, c2)"
        by (cases "requireFallback host t1 e f") auto
      from assms False ts Inr nt rq have "this' = t2" by (simp add: typescriptFallback_def)
      with requireFallback_frame [OF rq] f1 show ?thesis by (blast intro: cachesOnly_trans)
    qed
  qed
qed

lemma findProjectWithImport_cachesOnly:
  assumes "findProjectWithImport host this e root f = (r, this', c)"
  shows "cachesOnly this this'"
proof (cases rule: findProjectWithImport_steps [of e host this root f])
  case rel
  with assms show ?thesis by (auto simp: cachesOnly_def)
next
  case (thrown x)
  with assms show ?thesis by (auto simp: cachesOnly_def)
next
  case (aliased v)
  with assms show ?thesis by (auto simp: cachesOnly_def)
next
  case (builtin_name v)
  with assms show ?thesis by (auto simp: cachesOnly_def)
next
  case (npm v n t1 c1)
  with assms findNpmPackage_frame [OF npm(5)] show ?thesis by auto
next
  case (fallback v n t1 c1 r2 t2 c2)
  with assms have "this' = t2" by auto
  with findNpmPackage_frame [OF fallback(5)] typescriptFallback_frame [OF fallback(7)]
  show ?thesis by (blast intro: cachesOnly_trans)
qed

text \<open>
  C10. Every call of \<open>findProjectWithImport\<close> leaves what the constructor built as it
  was: the project nodes, the external nodes, the project root mappings, the npm project
  list, the loaded root configuration and the alias table. The locator after the call
  is the locator before it with at most the two resolution caches replaced. This holds
  also for a call that ends in an exception.
\<close>

theorem findProjectWithImport_frame:
  "nodes (fst (snd (findProjectWithImport host this importExpr projectRoot filePath))) = nodes this \<and>
   externalNodes (fst (snd (findProjectWithImport host this importExpr projectRoot filePath))) = externalNodes this \<and>
   projectRootMappings (fst (snd (findProjectWithImport host this importExpr projectRoot filePath))) = projectRootMappings this \<and>
   npmProjects (fst (snd (findProjectWithImport host this importExpr projectRoot filePath))) = npmProjects this \<and>
   tsConfig (fst (snd (findProjectWithImport host this importExpr projectRoot filePath))) = tsConfig this \<and>
   paths (fst (snd (findProjectWithImport host this importExpr projectRoot filePath))) = paths this \<and>
   (\<exists>tc nc. fst (snd (findProjectWithImport host this importExpr projectRoot filePath)) =
       this\<lparr>typescriptResolutionCache := tc, npmResolutionCache := nc\<rparr>)"
proof -
  obtain r this' c where run: "findProjectWithImport host this importExpr projectRoot filePath = (r, this', c)"
    by (cases "findProjectWithImport host this importExpr projectRoot filePath") auto
  have co: "cachesOnly this this'" by (rule findProjectWithImport_cachesOnly [OF run])
  then have "this' = this\<lparr>typescriptResolutionCache := typescriptResolutionCache this',
      npmResolutionCache := npmResolutionCache this'\<rparr>"
    by (simp add: cachesOnly_def)
  then have "\<exists>tc nc. this' = this\<lparr>typescriptResolutionCache := tc, npmResolutionCache := nc\<rparr>"
    by blast
  with co run show ?thesis by (simp add: cachesOnly_def)
qed

section \<open>Builtin modules\<close>

text \<open>
  C8. For a specifier that is a builtin module name of the host, with or without the
  \<open>node:\<close> prefix, no collaborator is ever called; and when the specifier is not
  relative and the path-mapping step ends without a project, the call writes the no-match
  entry for the specifier into the npm cache and returns no match.
\<close>

theorem builtin_short_circuit:
  assumes "m \<in> set (builtinModules host)" and "importExpr = m \<or> importExpr = ''node:'' @ m"
  shows "snd (snd (findProjectWithImport host this importExpr projectRoot filePath)) = [] \<and>
         (\<not> isRelativePath importExpr \<and>
          (\<exists>v. findProjectUsingPaths host this importExpr = Inr v \<and> \<not> truthy v) \<longrightarrow>
            findProjectWithImport host this importExpr projectRoot filePath =
              (Inr None,
               this\<lparr>npmResolutionCache := (npmResolutionCache this)(importExpr \<mapsto> None)\<rparr>,
               []))"
proof -
  from assms have "importExpr \<in> builtInModuleSet host"
    by (auto simp: builtInModuleSet_def)
  then show ?thesis
    by (cases rule: findProjectWithImport_steps [of importExpr host this projectRoot filePath])
      auto
qed

theorem builtin_short_circuit_witness:
  "''fs'' \<in> set (builtinModules (quietHost None)) \<and>
   fst (findProjectWithImport (quietHost None) (locatorOn (quietHost None) [])
          ''fs'' ''apps/app1'' ''apps/app1/src/main.ts'') = Inr None \<and>
   snd (snd (findProjectWithImport (quietHost None) (locatorOn (quietHost None) [])
          ''fs'' ''apps/app1'' ''apps/app1/src/main.ts'')) = [] \<and>
   fst (findProjectWithImport (quietHost None) (locatorOn (quietHost None) [])
          ''node:fs'' ''apps/app1'' ''apps/app1/src/main.ts'') = Inr None \<and>
   snd (snd (findProjectWithImport (quietHost None) (locatorOn (quietHost None) [])
          ''node:fs'' ''apps/app1'' ''apps/app1/src/main.ts'')) = []"
proof -
  have b: "''fs'' \<in> set (builtinModules (quietHost None))"
    by (simp add: quietHost_def)
  have p: "paths (locatorOn (quietHost None) []) = None"
    by (simp add: locatorOn_def new_TargetProjectLocator_def getRootTsConfig_def quietHost_def
        truthy_def Let_def projectNodes_def)
  have r1: "\<not> isRelativePath ''fs''" and r2: "\<not> isRelativePath ''node:fs''"
    by (simp_all add: isRelativePath_def)
  have q: "findProjectUsingPaths (quietHost None) (locatorOn (quietHost None) []) e = Inr None" for e
    by (simp add: findProjectUsingPaths_def findPaths_def p)
  have nt: "\<not> truthy None"
    by (simp add: truthy_def)
  from builtin_short_circuit [OF b, of "''fs''" "locatorOn (quietHost None) []" "''apps/app1''" "''apps/app1/src/main.ts''"]
       builtin_short_circuit [OF b, of "''node:fs''" "locatorOn (quietHost None) []" "''apps/app1''" "''apps/app1/src/main.ts''"]
       b r1 r2 q nt
  show ?thesis by simp
qed

section \<open>Evaluating the examples\<close>

lemmas path_defs = posix_join_def dirname_def posix_normalize_def normalizeString_def
  normalizeSegments_def normalize_step_def posix_relative_def posix_resolve_def

lemmas index_defs = findProjectOfResolvedModule_def findMatchingProjectFiles_def
  findProjectForPath_def enclosing_def normalizePath_def createProjectRootMappings_def
  readProperty_def objectPrototypeMembers_def memberName_def sublist_Cons_right

lemmas alias_defs = findProjectUsingPaths_def findPaths_def wildcardMatches_def
  replace_star_def replace_slash_star_def expandTarget_def suffix_to_prefix

lemmas example_defs = quietHost_def locatorOn_def projectNodes_def
  new_TargetProjectLocator_def getRootTsConfig_def truthy_def

lemmas fallback_defs = builtInModuleSet_def findNpmPackage_def installedExternalNode_def
  npmCacheKey_def
  parsePackageNameFromImportExpression_def typescriptFallback_def
  resolveImportWithTypescript_def projectOfTypescriptModule_def requireFallback_def
  resolveImportWithRequire_def

section \<open>Relative resolution\<close>

lemma relative_candidate_one_up:
  "posix_join [dirname ''apps/app1/src/main'', ''../lib/util''] = ''apps/app1/lib/util''"
  by (simp add: path_defs Let_def)

lemma relative_candidate_two_up:
  "posix_join [dirname ''apps/app1/src/main'', ''../../lib/util''] = ''apps/lib/util''"
  by (simp add: path_defs Let_def)

lemma project_of_apps_lib_util:
  "findProjectOfResolvedModule (locatorOn (quietHost None) [(''lib'', ''apps/lib'')]) ''apps/lib/util''
     = Some ''lib''"
  by (simp add: index_defs example_defs path_defs Let_def)

lemma project_of_apps_app1_lib_util:
  "findProjectOfResolvedModule (locatorOn (quietHost None) [(''lib'', ''apps/lib'')])
     ''apps/app1/lib/util'' = None"
  by (simp add: index_defs example_defs path_defs Let_def)

text \<open>
  C5 (as amended). For every syntactically relative specifier, \<open>findProjectWithImport\<close>
  joins the specifier to the directory of the importing file and returns what the
  project root index gives for that path, before any other strategy and without a
  collaborator call or a change of the locator. In particular, from the importing file
  \<open>apps/app1/src/main\<close> the specifier \<open>../../lib/util\<close> leads to \<open>apps/lib/util\<close>, and
  with a project rooted at \<open>apps/lib\<close> the call returns that project's id.
\<close>

theorem relative_resolution:
  "(isRelativePath importExpr \<longrightarrow>
      findProjectWithImport host this importExpr projectRoot filePath =
        (Inr (findProjectOfResolvedModule this (posix_join [dirname filePath, importExpr])),
         this, [])) \<and>
   findProjectWithImport host (locatorOn (quietHost None) [(''lib'', ''apps/lib'')])
       ''../../lib/util'' projectRoot ''apps/app1/src/main'' =
     (Inr (Some ''lib''), locatorOn (quietHost None) [(''lib'', ''apps/lib'')], [])"
proof -
  have rel: "isRelativePath ''../../lib/util''"
    by (simp add: isRelativePath_def)
  have general: "findProjectWithImport h t e r f =
        (Inr (findProjectOfResolvedModule t (posix_join [dirname f, e])), t, [])"
    if "isRelativePath e" for h t e r f
    using that by (simp add: findProjectWithImport_def Let_def)
  from general [OF rel] show ?thesis
    by (simp add: general relative_candidate_two_up project_of_apps_lib_util)
qed

theorem relative_resolution_witness:
  "isRelativePath ''../../lib/util'' \<and>
   fst (findProjectWithImport (quietHost None) (locatorOn (quietHost None) [(''lib'', ''apps/lib'')])
       ''../../lib/util'' ''apps/app1'' ''apps/app1/src/main'') =
     Inr (findProjectOfResolvedModule (locatorOn (quietHost None) [(''lib'', ''apps/lib'')])
            ''apps/lib/util'') \<and>
   findProjectOfResolvedModule (locatorOn (quietHost None) [(''lib'', ''apps/lib'')])
            ''apps/lib/util'' = Some ''lib''"
proof -
  have rel: "isRelativePath ''../../lib/util''"
    by (simp add: isRelativePath_def)
  from relative_resolution [of "''../../lib/util''" "quietHost None"
      "locatorOn (quietHost None) [(''lib'', ''apps/lib'')]" "''apps/app1''" "''apps/app1/src/main''"]
    rel
  show ?thesis
    by (simp add: relative_candidate_two_up project_of_apps_lib_util)
qed

text \<open>
  C5 as stated fails on its example: from \<open>apps/app1/src/main\<close> the specifier
  \<open>../lib/util\<close> leads to \<open>apps/app1/lib/util\<close>, which is not below \<open>apps/lib\<close>, and the
  call returns no project.
\<close>

theorem relative_example_counterexample:
  "isRelativePath ''../lib/util'' \<and>
   posix_join [dirname ''apps/app1/src/main'', ''../lib/util''] = ''apps/app1/lib/util'' \<and>
   fst (findProjectWithImport (quietHost None) (locatorOn (quietHost None) [(''lib'', ''apps/lib'')])
       ''../lib/util'' ''apps/app1'' ''apps/app1/src/main'') = Inr None \<and>
   fst (findProjectWithImport (quietHost None) (locatorOn (quietHost None) [(''lib'', ''apps/lib'')])
       ''../lib/util'' ''apps/app1'' ''apps/app1/src/main'') \<noteq> Inr (Some ''lib'')"
  by (simp add: findProjectWithImport_def isRelativePath_def relative_candidate_one_up
      project_of_apps_app1_lib_util)

section \<open>Path mappings\<close>

lemma wildcardMatches_spec: "wildcardMatches specifier p \<longleftrightarrow> specWildcardMatch specifier p"
proof (cases "endsWith p ''/*''")
  case True
  then obtain q where p: "p = q @ ''/*''"
    by (auto simp: suffix_def)
  have "butlast (q @ ''/*'') = q @ ''/''"
    by (simp add: butlast_append)
  moreover have "endsWith (q @ ''/*'') ''*''"
    by (simp add: suffix_def)
  ultimately show ?thesis
    using True p
    by (simp add: wildcardMatches_def specWildcardMatch_def replace_star_def
        replace_slash_star_def fixedPrefix_def)
next
  case False
  then show ?thesis
    by (simp add: wildcardMatches_def specWildcardMatch_def)
qed

lemma find_key_entry:
  "(case List.find P (map fst ps) of
      None \<Rightarrow> None
    | Some k \<Rightarrow> Some (k, readProperty ps k))
   = map_option (\<lambda>(k, v). (k, Own v)) (List.find (\<lambda>(k, v). P k) ps)"
proof (induction ps)
  case Nil
  show ?case by simp
next
  case (Cons kv ps)
  obtain a b where kv: "kv = (a, b)" by (cases kv)
  show ?case
  proof (cases "P a")
    case True
    with kv show ?thesis by (simp add: readProperty_def)
  next
    case False
    show ?thesis
    proof (cases "List.find P (map fst ps)")
      case None
      with False kv Cons.IH show ?thesis by simp
    next
      case (Some k)
      then have "P k" by (auto simp: find_Some_iff)
      with False have "k \<noteq> a" by blast
      then have "readProperty ((a, b) # ps) k = readProperty ps k"
        by (simp add: readProperty_def)
      with False kv Cons.IH Some show ?thesis by simp
    qed
  qed
qed

lemma readProperty_declared:
  "\<not> namesInheritedMember this specifier \<Longrightarrow> paths this = Some ps \<Longrightarrow>
     readProperty ps specifier =
       (case map_of ps specifier of None \<Rightarrow> Undefined | Some targets \<Rightarrow> Own targets)"
  by (auto simp: namesInheritedMember_def readProperty_def split: option.splits)

text \<open>
  C7 (as amended). For a specifier that the alias table declares, or that is not the name
  of an inherited member of the table object, \<open>findPaths\<close> first looks for an entry whose
  pattern is the specifier itself, wherever it is declared, and returns its target list
  unmodified. Only when there is none does it take the first entry in declaration order
  whose pattern ends in \<open>/*\<close> and matches as a wildcard: the specifier starts with the
  fixed prefix and a slash, or is the fixed prefix. No later entry is considered and
  nothing is scored. Without an alias table there is no match.
\<close>

theorem findPaths_exact_then_first_wildcard:
  "(paths this = None \<longrightarrow> findPaths this specifier = None) \<and>
   (paths this = Some ps \<and> \<not> namesInheritedMember this specifier \<longrightarrow>
      findPaths this specifier =
        (case map_of ps specifier of
           Some targets \<Rightarrow> Some (specifier, Own targets)
         | None \<Rightarrow>
             map_option (\<lambda>(p, targets). (p, Own targets))
               (List.find (\<lambda>(p, targets). specWildcardMatch specifier p) ps)))"
proof -
  have w: "wildcardMatches specifier = specWildcardMatch specifier"
    by (rule ext) (rule wildcardMatches_spec)
  have "findPaths this specifier =
        (case map_of ps specifier of
           Some targets \<Rightarrow> Some (specifier, Own targets)
         | None \<Rightarrow>
             map_option (\<lambda>(p, targets). (p, Own targets))
               (List.find (\<lambda>(p, targets). specWildcardMatch specifier p) ps))"
    if ps: "paths this = Some ps" and ni: "\<not> namesInheritedMember this specifier"
    using readProperty_declared [OF ni ps]
      find_key_entry [where P = "specWildcardMatch specifier" and ps = ps]
    by (simp add: findPaths_def ps w split: option.splits)
  then show ?thesis
    by (simp add: findPaths_def)
qed

lemma paths_locatorOn: "paths (locatorOn (quietHost ps) prs) = ps"
  by (simp add: example_defs Let_def)

theorem findPaths_exact_then_first_wildcard_witness:
  "paths (locatorOn (quietHost (Some [(''@org/*'', [''libs/*'']), (''@app/*'', [''apps/*''])])) []) =
     Some [(''@org/*'', [''libs/*'']), (''@app/*'', [''apps/*''])] \<and>
   \<not> namesInheritedMember
        (locatorOn (quietHost (Some [(''@org/*'', [''libs/*'']), (''@app/*'', [''apps/*''])])) [])
        ''@app/web'' \<and>
   findPaths (locatorOn (quietHost (Some [(''@org/*'', [''libs/*'']), (''@app/*'', [''apps/*''])])) [])
     ''@app/web'' = Some (''@app/*'', Own [''apps/*'']) \<and>
   findPaths (locatorOn (quietHost (Some [(''@org/*'', [''libs/*'']), (''@app/*'', [''apps/*''])])) [])
     ''@org'' = Some (''@org/*'', Own [''libs/*''])"
proof -
  let ?ps = "[(''@org/*'', [''libs/*'']), (''@app/*'', [''apps/*''])]"
  let ?t = "locatorOn (quietHost (Some ?ps)) []"
  have p: "paths ?t = Some ?ps"
    by (simp add: paths_locatorOn)
  have n1: "\<not> namesInheritedMember ?t ''@app/web''" and n2: "\<not> namesInheritedMember ?t ''@org''"
    by (simp_all add: namesInheritedMember_def p objectPrototypeMembers_def)
  from findPaths_exact_then_first_wildcard [of ?t "''@app/web''" ?ps]
    findPaths_exact_then_first_wildcard [of ?t "''@org''" ?ps] p n1 n2
  show ?thesis
    by (simp add: specWildcardMatch_def fixedPrefix_def suffix_to_prefix)
qed

text \<open>
  C7 as stated fails where an exact entry is declared after a wildcard entry that also
  matches: the first matching pattern in declaration order is the wildcard one, and
  \<open>findPaths\<close> returns the exact one.
\<close>

theorem findPaths_first_match_counterexample:
  "specFirstMatch [(''@org/*'', [''libs/*'']), (''@org/shared'', [''libs/shared/src/index.ts''])]
     ''@org/shared'' = Some (''@org/*'', [''libs/*'']) \<and>
   findPaths
     (locatorOn (quietHost (Some [(''@org/*'', [''libs/*'']),
                                  (''@org/shared'', [''libs/shared/src/index.ts''])])) [])
     ''@org/shared'' = Some (''@org/shared'', Own [''libs/shared/src/index.ts''])"
  by (simp add: specFirstMatch_def specMatch_def specWildcardMatch_def fixedPrefix_def
      findPaths_def readProperty_def paths_locatorOn suffix_to_prefix)

section \<open>The wildcard example\<close>

text \<open>
  C2 (as amended). A target template is expanded only when it ends in \<open>/*\<close>: with the
  alias \<open>@org/*\<close> mapped to \<open>libs/*\<close> and a project rooted at \<open>libs/shared\<close>, the specifier
  \<open>@org/shared\<close> gives the candidate \<open>libs/shared\<close> and the call returns the id of that
  project, without a collaborator call. A template with the asterisk elsewhere, such as
  \<open>libs/*/src/index\<close>, is the candidate as it stands.
\<close>

theorem wildcard_alias_trailing:
  "expandTarget (quietHost ps) ''@org/*'' ''@org/shared'' ''libs/*'' = ''libs/shared'' \<and>
   fst (findProjectWithImport (quietHost (Some [(''@org/*'', [''libs/*''])]))
          (locatorOn (quietHost (Some [(''@org/*'', [''libs/*''])])) [(''shared'', ''libs/shared'')])
          ''@org/shared'' ''apps/app1'' ''apps/app1/src/main.ts'') = Inr (Some ''shared'') \<and>
   snd (snd (findProjectWithImport (quietHost (Some [(''@org/*'', [''libs/*''])]))
          (locatorOn (quietHost (Some [(''@org/*'', [''libs/*''])])) [(''shared'', ''libs/shared'')])
          ''@org/shared'' ''apps/app1'' ''apps/app1/src/main.ts'')) = [] \<and>
   expandTarget host ''@org/*'' ''@org/shared'' ''libs/*/src/index'' = ''libs/*/src/index''"
proof -
  have e1: "expandTarget (quietHost ps) ''@org/*'' ''@org/shared'' ''libs/*'' = ''libs/shared''" for ps
    by (simp add: alias_defs path_defs quietHost_def Let_def)
  have e2: "expandTarget host ''@org/*'' ''@org/shared'' ''libs/*/src/index'' = ''libs/*/src/index''"
    by (simp add: expandTarget_def suffix_to_prefix)
  have p: "findProjectOfResolvedModule
      (locatorOn (quietHost (Some [(''@org/*'', [''libs/*''])])) [(''shared'', ''libs/shared'')])
      ''libs/shared'' = Some ''shared''"
    by (simp add: index_defs example_defs path_defs Let_def)
  have f: "findPaths
      (locatorOn (quietHost (Some [(''@org/*'', [''libs/*''])])) [(''shared'', ''libs/shared'')])
      ''@org/shared'' = Some (''@org/*'', Own [''libs/*''])"
    by (simp add: findPaths_def readProperty_def objectPrototypeMembers_def paths_locatorOn
        wildcardMatches_def replace_star_def replace_slash_star_def suffix_to_prefix)
  have u: "findProjectUsingPaths (quietHost (Some [(''@org/*'', [''libs/*''])]))
      (locatorOn (quietHost (Some [(''@org/*'', [''libs/*''])])) [(''shared'', ''libs/shared'')])
      ''@org/shared'' = Inr (Some ''shared'')"
    by (simp add: findProjectUsingPaths_def f e1 p truthy_def)
  have r: "\<not> isRelativePath ''@org/shared''"
    by (simp add: isRelativePath_def)
  show ?thesis
    by (simp add: e1 e2 findProjectWithImport_def r u truthy_def)
qed

text \<open>
  C2 as stated fails: for the template \<open>libs/*/src/index\<close> nothing is substituted, the
  candidate is the template, no project root encloses it, and on a host whose later
  strategies find nothing the call returns no project.
\<close>

theorem wildcard_alias_interior_counterexample:
  "expandTarget (quietHost (Some [(''@org/*'', [''libs/*/src/index''])]))
     ''@org/*'' ''@org/shared'' ''libs/*/src/index'' \<noteq> ''libs/shared/src/index'' \<and>
   findProjectUsingPaths (quietHost (Some [(''@org/*'', [''libs/*/src/index''])]))
     (locatorOn (quietHost (Some [(''@org/*'', [''libs/*/src/index''])])) [(''shared'', ''libs/shared'')])
     ''@org/shared'' = Inr None \<and>
   fst (findProjectWithImport (quietHost (Some [(''@org/*'', [''libs/*/src/index''])]))
          (locatorOn (quietHost (Some [(''@org/*'', [''libs/*/src/index''])])) [(''shared'', ''libs/shared'')])
          ''@org/shared'' ''apps/app1'' ''apps/app1/src/main.ts'') = Inr None"
proof -
  let ?h = "quietHost (Some [(''@org/*'', [''libs/*/src/index''])])"
  let ?t = "locatorOn ?h [(''shared'', ''libs/shared'')]"
  have e: "expandTarget ?h ''@org/*'' ''@org/shared'' ''libs/*/src/index'' = ''libs/*/src/index''"
    by (simp add: expandTarget_def suffix_to_prefix)
  have p: "findProjectOfResolvedModule ?t ''libs/*/src/index'' = None"
    by (simp add: index_defs example_defs path_defs Let_def)
  have f: "findPaths ?t ''@org/shared'' = Some (''@org/*'', Own [''libs/*/src/index''])"
    by (simp add: findPaths_def readProperty_def objectPrototypeMembers_def paths_locatorOn
        wildcardMatches_def replace_star_def replace_slash_star_def suffix_to_prefix)
  have u: "findProjectUsingPaths ?h ?t ''@org/shared'' = Inr None"
    by (simp add: findProjectUsingPaths_def f e p truthy_def)
  have r: "\<not> isRelativePath ''@org/shared''"
    by (simp add: isRelativePath_def)
  have b: "''@org/shared'' \<notin> builtInModuleSet ?h"
    by (simp add: builtInModuleSet_def quietHost_def)
  have rest: "fst (findProjectWithImport ?h ?t ''@org/shared'' ''apps/app1'' ''apps/app1/src/main.ts'') = Inr None"
    by (simp add: findProjectWithImport_def isRelativePath_def alias_defs index_defs
        fallback_defs path_defs example_defs Let_def)
  show ?thesis
    by (simp add: e u rest)
qed

section \<open>Splitting and joining\<close>

lemma split_nonempty: "split c s \<noteq> []"
  by (induction s) (auto split: list.splits)


lemma join_with_Cons: "ys \<noteq> [] \<Longrightarrow> join_with sep (x # ys) = x @ sep @ join_with sep ys"
  by (cases ys) auto

lemma join_with_append:
  "xs \<noteq> [] \<Longrightarrow> ys \<noteq> [] \<Longrightarrow> join_with sep (xs @ ys) = join_with sep xs @ sep @ join_with sep ys"
proof (induction xs)
  case Nil
  then show ?case by simp
next
  case (Cons x xs)
  show ?case
  proof (cases "xs = []")
    case True
    with Cons.prems show ?thesis by (simp add: join_with_Cons)
  next
    case False
    with Cons show ?thesis by (simp add: join_with_Cons)
  qed
qed

lemma join_split: "join_with [c] (split c s) = s"
proof (induction s)
  case Nil
  show ?case by simp
next
  case (Cons x s)
  obtain t ts where sp: "split c s = t # ts"
    using split_nonempty [of c s] by (cases "split c s") auto
  show ?case
  proof (cases "x = c")
    case True
    with Cons sp show ?thesis by (simp add: join_with_Cons)
  next
    case False
    with Cons sp show ?thesis by (cases ts) auto
  qed
qed

section \<open>Installed-dependency directories\<close>




section \<open>External packages\<close>

lemma hd_split: "hd (split c s) = takeWhile (\<lambda>x. x \<noteq> c) s"
proof (induction s)
  case Nil
  show ?case by simp
next
  case (Cons x s)
  obtain t ts where "split c s = t # ts"
    using split_nonempty [of c s] by (cases "split c s") auto
  with Cons show ?case by simp
qed

lemma findMatchingExternalNode_object:
  assumes "map_of fs ''name'' = Some (JString n)" and "map_of fs ''version'' = Some (JString v)"
  shows "findMatchingExternalNode pkgs (JObject fs) =
           Inr (List.find (\<lambda>pkg. data_packageName pkg = n \<and> data_version pkg = v) pkgs)"
  using assms by (induction pkgs) auto

text \<open>
  C4 (as amended). The package name of a specifier is its first two pieces when it
  starts with \<open>@\<close> and its first piece otherwise. When the specifier is not relative, the
  path-mapping step ends without a project, the specifier is not a builtin, the nearest
  installed descriptor of the package declares a name and a version that some npm project
  of the locator has (an external node under a key that starts with \<open>npm:\<close>), and the npm
  cache has for this package and context root no entry or the identifier of the first
  such node in scan order, the call returns that identifier (an identifier is not the
  empty string).
\<close>

theorem external_package_match:
  assumes "\<not> isRelativePath importExpr"
    and "findProjectUsingPaths host this importExpr = Inr aliased"
    and "\<not> truthy aliased"
    and "importExpr \<notin> builtInModuleSet host"
    and "npmResolutionCache this (npmCacheKey importExpr projectRoot) = None \<or>
         npmResolutionCache this (npmCacheKey importExpr projectRoot) = Some (Some (ext_name node))"
    and "npmProjects this =
           map snd (filter (\<lambda>(k, n). startsWith k ''npm:'') (externalNodes this))"
    and "findExternalPackageJsonPath host (parsePackageNameFromImportExpression importExpr)
           (posix_join [workspaceRoot host, projectRoot]) = Inr (Some descriptorPath)"
    and "descriptorPath \<noteq> []"
    and "readFileSync host descriptorPath = Inr content"
    and "parseJson host content = Inr (JObject fs)"
    and "map_of fs ''name'' = Some (JString n)"
    and "map_of fs ''version'' = Some (JString v)"
    and "List.find (\<lambda>pkg. data_packageName pkg = n \<and> data_version pkg = v)
           (map snd (filter (\<lambda>(k, n). startsWith k ''npm:'') (externalNodes this)))
           = Some node"
    and "ext_name node \<noteq> []"
  shows "fst (findProjectWithImport host this importExpr projectRoot filePath)
           = Inr (Some (ext_name node)) \<and>
         parsePackageNameFromImportExpression importExpr =
           (if startsWith importExpr ''@''
            then join_with ''/'' (take 2 (split CHR ''/'' importExpr))
            else takeWhile (\<lambda>c. c \<noteq> CHR ''/'') importExpr)"
proof -
  have m: "findMatchingExternalNode (npmProjects this) (JObject fs) = Inr (Some node)"
    using assms(6,11,12,13) by (simp add: findMatchingExternalNode_object)
  have n: "fst (findNpmPackage host this importExpr projectRoot) = Some (ext_name node)"
    using assms(5)
  proof
    assume "npmResolutionCache this (npmCacheKey importExpr projectRoot) = None"
    with assms(7,8,9,10) m show ?thesis
      by (simp add: findNpmPackage_def installedExternalNode_def Let_def truthy_def)
  next
    assume "npmResolutionCache this (npmCacheKey importExpr projectRoot)
        = Some (Some (ext_name node))"
    then show ?thesis
      by (simp add: findNpmPackage_def Let_def)
  qed
  have t: "truthy (Some (ext_name node))"
    using assms(14) by (simp add: truthy_def)
  have "fst (findProjectWithImport host this importExpr projectRoot filePath)
           = Inr (Some (ext_name node))"
  proof (cases rule: findProjectWithImport_steps [of importExpr host this projectRoot filePath])
    case (npm a k t1 c1)
    with n show ?thesis by simp
  next
    case (fallback a k t1 c1 r t2 c2)
    with n t show ?thesis by simp
  qed (use assms(1,2,3,4) in auto)
  then show ?thesis
    by (simp add: parsePackageNameFromImportExpression_def hd_split)
qed

theorem external_package_match_witness:
  "fst (findProjectWithImport leftPadHost leftPadLocator ''left-pad'' ''apps/app1''
          ''apps/app1/src/main.ts'') = Inr (Some ''npm:left-pad'') \<and>
   parsePackageNameFromImportExpression ''left-pad'' = ''left-pad'' \<and>
   npmProjects leftPadLocator =
     [\<lparr>ext_name = ''npm:left-pad@1.0.0'', data_packageName = ''left-pad'', data_version = ''1.0.0''\<rparr>,
      \<lparr>ext_name = ''npm:left-pad'', data_packageName = ''left-pad'', data_version = ''1.2.0''\<rparr>,
      \<lparr>ext_name = ''npm:left-pad@again'', data_packageName = ''left-pad'', data_version = ''1.2.0''\<rparr>]"
proof -
  let ?node = "\<lparr>ext_name = ''npm:left-pad'', data_packageName = ''left-pad'', data_version = ''1.2.0''\<rparr>"
  have npm: "npmProjects leftPadLocator =
     [\<lparr>ext_name = ''npm:left-pad@1.0.0'', data_packageName = ''left-pad'', data_version = ''1.0.0''\<rparr>,
      ?node,
      \<lparr>ext_name = ''npm:left-pad@again'', data_packageName = ''left-pad'', data_version = ''1.2.0''\<rparr>]"
    by (simp add: leftPadLocator_def leftPadHost_def example_defs Let_def)
  have ext: "map snd (filter (\<lambda>(k, n). startsWith k ''npm:'') (externalNodes leftPadLocator))
      = npmProjects leftPadLocator"
    by (simp add: leftPadLocator_def leftPadHost_def example_defs Let_def)
  have pths: "paths leftPadLocator = None"
    by (simp add: leftPadLocator_def leftPadHost_def example_defs Let_def)
  have cache: "npmResolutionCache leftPadLocator k = None" for k
    by (simp add: leftPadLocator_def leftPadHost_def example_defs Let_def)
  have pkg: "parsePackageNameFromImportExpression ''left-pad'' = ''left-pad''"
    by (simp add: parsePackageNameFromImportExpression_def)
  have h1: "\<not> isRelativePath ''left-pad''"
    by (simp add: isRelativePath_def)
  have h2: "findProjectUsingPaths leftPadHost leftPadLocator ''left-pad'' = Inr None"
    by (simp add: findProjectUsingPaths_def findPaths_def pths)
  have h2': "\<not> truthy None"
    by (simp add: truthy_def)
  have h3: "''left-pad'' \<notin> builtInModuleSet leftPadHost"
    by (simp add: builtInModuleSet_def leftPadHost_def quietHost_def)
  have h5: "findExternalPackageJsonPath leftPadHost (parsePackageNameFromImportExpression ''left-pad'')
           (posix_join [workspaceRoot leftPadHost, ''apps/app1''])
           = Inr (Some ''/ws/node_modules/left-pad/package.json'')"
    by (simp add: pkg leftPadHost_def)
  have h7: "readFileSync leftPadHost ''/ws/node_modules/left-pad/package.json''
      = Inr ''{ name: left-pad, version: 1.2.0 }''"
    by (simp add: leftPadHost_def)
  have h8: "parseJson leftPadHost ''{ name: left-pad, version: 1.2.0 }''
      = Inr (JObject [(''name'', JString ''left-pad''), (''version'', JString ''1.2.0'')])"
    by (simp add: leftPadHost_def)
  have h11: "List.find (\<lambda>pkg. data_packageName pkg = ''left-pad'' \<and> data_version pkg = ''1.2.0'')
      (map snd (filter (\<lambda>(k, n). startsWith k ''npm:'') (externalNodes leftPadLocator))) = Some ?node"
    by (simp add: ext npm)
  from external_package_match [OF h1 h2 h2' h3 disjI1 [OF cache] ext [symmetric] h5 _ h7 h8 _ _ h11,
      of "''apps/app1/src/main.ts''"]
  show ?thesis
    by (simp add: pkg npm)
qed

text \<open>
  C4 as stated fails. A known external node with the declared name and version that is
  not registered under an \<open>npm:\<close> key is not among the npm projects, and the call returns
  no match. And a first call for the specifier \<open>left-pad__apps/app1\<close>, which resolves to
  nothing, leaves a no-match entry under that very string, which is the cache key of the
  package \<open>left-pad\<close> in the context \<open>apps/app1\<close>: the call for \<open>left-pad\<close> then reads the
  entry and returns no match, although the package is installed and a node matches.
\<close>

theorem external_package_match_counterexample:
  "map_of (externalNodes unprefixedLocator) ''left-pad'' =
     Some \<lparr>ext_name = ''left-pad'', data_packageName = ''left-pad'', data_version = ''1.2.0''\<rparr> \<and>
   npmProjects unprefixedLocator = [] \<and>
   fst (findProjectWithImport leftPadHost unprefixedLocator ''left-pad'' ''apps/app1''
          ''apps/app1/src/main.ts'') = Inr None \<and>
   npmCacheKey ''left-pad'' ''apps/app1'' = ''left-pad__apps/app1'' \<and>
   fst (findProjectWithImport leftPadHost leftPadLocator ''left-pad__apps/app1'' ''apps/app1''
          ''apps/app1/src/main.ts'') = Inr None \<and>
   fst (findProjectWithImport leftPadHost
          (fst (snd (findProjectWithImport leftPadHost leftPadLocator ''left-pad__apps/app1''
                       ''apps/app1'' ''apps/app1/src/main.ts'')))
          ''left-pad'' ''apps/app1'' ''apps/app1/src/main.ts'') = Inr None"
  by (simp add: unprefixedLocator_def leftPadLocator_def leftPadHost_def
      findProjectWithImport_def isRelativePath_def alias_defs index_defs
      fallback_defs path_defs example_defs Let_def)

section \<open>The key of the npm cache\<close>

lemma packageName_prefix:
  obtains rest where "parsePackageNameFromImportExpression importExpr @ rest = importExpr"
    and "rest = [] \<or> hd rest = CHR ''/''"
proof (cases "startsWith importExpr ''@''")
  case False
  let ?P = "\<lambda>x. x \<noteq> CHR ''/''"
  have pkg: "parsePackageNameFromImportExpression importExpr = takeWhile ?P importExpr"
    using False by (simp add: parsePackageNameFromImportExpression_def hd_split)
  have 1: "parsePackageNameFromImportExpression importExpr @ dropWhile ?P importExpr = importExpr"
    by (simp add: pkg)
  have 2: "dropWhile ?P importExpr = [] \<or> hd (dropWhile ?P importExpr) = CHR ''/''"
    using hd_dropWhile [of ?P importExpr] by blast
  from 1 2 show thesis by (rule that)
next
  case True
  let ?segs = "split CHR ''/'' importExpr"
  have whole: "join_with ''/'' (take 2 ?segs @ drop 2 ?segs) = importExpr"
    using join_split [of "CHR ''/''" importExpr] by simp
  have pkg: "parsePackageNameFromImportExpression importExpr = join_with ''/'' (take 2 ?segs)"
    using True by (simp add: parsePackageNameFromImportExpression_def)
  show thesis
  proof (cases "drop 2 ?segs = []")
    case True
    with whole have "join_with ''/'' (take 2 ?segs) = importExpr"
      by (simp only: append_Nil2)
    then have 1: "parsePackageNameFromImportExpression importExpr @ [] = importExpr"
      by (simp only: pkg append_Nil2)
    have 2: "[] = ([]::string) \<or> hd ([]::string) = CHR ''/''"
      by simp
    from 1 2 show thesis by (rule that)
  next
    case False
    have ne: "take 2 ?segs \<noteq> []"
      using split_nonempty [of "CHR ''/''" importExpr] by simp
    have j: "join_with ''/'' (take 2 ?segs @ drop 2 ?segs)
        = join_with ''/'' (take 2 ?segs) @ ''/'' @ join_with ''/'' (drop 2 ?segs)"
      by (rule join_with_append [OF ne False])
    have "join_with ''/'' (take 2 ?segs) @ ''/'' @ join_with ''/'' (drop 2 ?segs) = importExpr"
      by (rule trans [OF j [symmetric] whole])
    then have 1: "parsePackageNameFromImportExpression importExpr
          @ (CHR ''/'' # join_with ''/'' (drop 2 ?segs)) = importExpr"
      by (simp only: pkg append_Cons append_Nil)
    have 2: "CHR ''/'' # join_with ''/'' (drop 2 ?segs) = [] \<or>
         hd (CHR ''/'' # join_with ''/'' (drop 2 ?segs)) = CHR ''/''"
      by simp
    from 1 2 show thesis by (rule that)
  qed
qed

lemma npmCacheKey_neq: "npmCacheKey importExpr projectRoot \<noteq> importExpr"
proof
  assume eq: "npmCacheKey importExpr projectRoot = importExpr"
  obtain rest where e: "parsePackageNameFromImportExpression importExpr @ rest = importExpr"
    and r: "rest = [] \<or> hd rest = CHR ''/''"
    by (rule packageName_prefix)
  from eq have "parsePackageNameFromImportExpression importExpr @ ''__'' @ projectRoot = importExpr"
    by (simp only: npmCacheKey_def)
  with e have "parsePackageNameFromImportExpression importExpr @ ''__'' @ projectRoot
      = parsePackageNameFromImportExpression importExpr @ rest"
    by (simp only:)
  then have "rest = ''__'' @ projectRoot" by simp
  with r show False by simp
qed

section \<open>What a second call sees\<close>

lemma findProjectOfResolvedModule_cachesOnly:
  assumes "cachesOnly t u"
  shows "findProjectOfResolvedModule u p = findProjectOfResolvedModule t p"
proof -
  from assms have n: "nodes u = nodes t" and m: "projectRootMappings u = projectRootMappings t"
    by (simp_all add: cachesOnly_def)
  show ?thesis
    unfolding findProjectOfResolvedModule_def findMatchingProjectFiles_def n m by (rule refl)
qed

lemma projectOfTypescriptModule_cachesOnly:
  "cachesOnly t u \<Longrightarrow> projectOfTypescriptModule u m = projectOfTypescriptModule t m"
  by (simp add: projectOfTypescriptModule_def findProjectOfResolvedModule_cachesOnly)

lemma findInPaths_cachesOnly:
  "cachesOnly t u \<Longrightarrow> findInPaths host u pat e targets = findInPaths host t pat e targets"
  by (induction targets) (simp_all add: findProjectOfResolvedModule_cachesOnly Let_def)

lemma findProjectUsingPaths_cachesOnly:
  assumes "cachesOnly t u"
  shows "findProjectUsingPaths host u e = findProjectUsingPaths host t e"
proof -
  from assms have "paths u = paths t" by (simp add: cachesOnly_def)
  then have "findPaths u e = findPaths t e" by (simp add: findPaths_def)
  with assms show ?thesis
    by (simp add: findProjectUsingPaths_def findInPaths_cachesOnly
        split: option.splits prod.splits propertyValue.splits)
qed

lemma installedExternalNode_calls:
  "installedExternalNode host this p root = (m, c) \<Longrightarrow> ResolveModuleByImport a b x \<notin> set c"
  by (auto simp: installedExternalNode_def Let_def split: sum.splits if_splits)

lemma installedExternalNode_npmProjects:
  assumes eq: "npmProjects t = npmProjects this"
  shows "installedExternalNode host t p root = installedExternalNode host this p root"
  unfolding installedExternalNode_def eq by (rule refl)

lemma findNpmPackage_ts_cache:
  "findNpmPackage host this e root = (v, this', c) \<Longrightarrow>
     typescriptResolutionCache this' = typescriptResolutionCache this"
  by (auto simp: findNpmPackage_def Let_def split: option.splits prod.splits)

lemma findNpmPackage_calls:
  "findNpmPackage host this e root = (v, this', c) \<Longrightarrow> ResolveModuleByImport a b x \<notin> set c"
  by (auto simp: findNpmPackage_def Let_def installedExternalNode_calls
      split: option.splits prod.splits)

lemma findNpmPackage_again:
  assumes "findNpmPackage host this e root = (v, this', c)"
    and "npmProjects t = npmProjects this"
    and "npmResolutionCache t (npmCacheKey e root) = npmResolutionCache this' (npmCacheKey e root)"
  shows "\<exists>t' c'. findNpmPackage host t e root = (v, t', c') \<and> set c' \<subseteq> set c \<and>
           (truthy v \<longrightarrow> c' = [])"
proof (cases "npmResolutionCache this (npmCacheKey e root)")
  case (Some w)
  with assms(1) have "v = w" and "this' = this"
    by (auto simp: findNpmPackage_def Let_def)
  with Some assms(3) show ?thesis
    by (simp add: findNpmPackage_def Let_def)
next
  case None
  obtain m ci where inst:
    "installedExternalNode host this (parsePackageNameFromImportExpression e) root = (m, ci)"
    by (cases "installedExternalNode host this (parsePackageNameFromImportExpression e) root") auto
  show ?thesis
  proof (cases m)
    case miss: None
    with None inst assms(1) have "this' = this" and "v = None" and "c = ci"
      by (auto simp: findNpmPackage_def Let_def)
    with None miss inst assms(3) show ?thesis
      by (simp add: findNpmPackage_def Let_def installedExternalNode_npmProjects [OF assms(2)]
          truthy_def)
  next
    case (Some node)
    with None inst assms(1) have "v = Some (ext_name node)"
      and "npmResolutionCache this' (npmCacheKey e root) = Some (Some (ext_name node))"
      by (auto simp: findNpmPackage_def Let_def)
    with assms(3) show ?thesis
      by (simp add: findNpmPackage_def Let_def)
  qed
qed

lemma requireFallback_cachesOnly:
  "cachesOnly t u \<Longrightarrow>
     fst (requireFallback host u e f) = fst (requireFallback host t e f) \<and>
     snd (snd (requireFallback host u e f)) = snd (snd (requireFallback host t e f))"
  by (simp add: requireFallback_def findProjectOfResolvedModule_cachesOnly
      split: prod.splits sum.splits)

lemma requireFallback_result:
  "requireFallback host t e f = (r, t', c) \<Longrightarrow>
     (\<exists>v. r = Inr v) \<and> typescriptResolutionCache t' = typescriptResolutionCache t \<and>
     (\<forall>k. k \<noteq> e \<longrightarrow> npmResolutionCache t' k = npmResolutionCache t k) \<and>
     (\<forall>a b x. ResolveModuleByImport a b x \<notin> set c)"
  by (auto simp: requireFallback_def resolveImportWithRequire_def Let_def split: prod.splits sum.splits)

lemma resolveImportWithTypescript_npm_cache:
  "resolveImportWithTypescript host t e f = (r, t', c) \<Longrightarrow>
     npmResolutionCache t' = npmResolutionCache t"
  by (auto simp: resolveImportWithTypescript_def Let_def split: option.splits sum.splits)

lemma resolveImportWithTypescript_again:
  assumes "resolveImportWithTypescript host t e f = (r, t', c)"
    and "cachesOnly t u"
    and "typescriptResolutionCache u e = typescriptResolutionCache t' e"
  shows "(\<forall>v. r = Inr v \<longrightarrow> resolveImportWithTypescript host u e f = (r, u, [])) \<and>
         (\<forall>x. r = Inl x \<longrightarrow> t' = t \<and> resolveImportWithTypescript host u e f = (r, u, c))"
proof (cases "typescriptResolutionCache t e")
  case (Some m)
  with assms(1) have "t' = t" and "r = Inr (projectOfTypescriptModule t m)"
    by (auto simp: resolveImportWithTypescript_def)
  with Some assms(2,3) show ?thesis
    by (simp add: resolveImportWithTypescript_def projectOfTypescriptModule_cachesOnly)
next
  case None
  have abs: "absolutePath (tsConfig u) = absolutePath (tsConfig t)"
    using assms(2) by (simp add: cachesOnly_def)
  show ?thesis
  proof (cases "resolveModuleByImport host e f (absolutePath (tsConfig t))")
    case (Inl x)
    with None assms(1) have "t' = t" and "r = Inl x"
      and "c = [ResolveModuleByImport e f (absolutePath (tsConfig t))]"
      by (auto simp: resolveImportWithTypescript_def Let_def)
    with None Inl assms(3) abs show ?thesis
      by (simp add: resolveImportWithTypescript_def Let_def)
  next
    case (Inr m)
    let ?m' = "if truthy m then m else None"
    from None Inr assms(1)
    have t': "t' = t\<lparr>typescriptResolutionCache := (typescriptResolutionCache t)(e \<mapsto> ?m')\<rparr>"
      and r: "r = Inr (projectOfTypescriptModule t' m)"
      by (auto simp: resolveImportWithTypescript_def Let_def)
    have "cachesOnly t t'"
      using t' by (simp add: cachesOnly_def)
    then have p: "projectOfTypescriptModule t' m = projectOfTypescriptModule t m"
      by (rule projectOfTypescriptModule_cachesOnly)
    have same: "projectOfTypescriptModule t ?m' = projectOfTypescriptModule t m"
      by (simp add: projectOfTypescriptModule_def truthy_def)
    from t' assms(3) have "typescriptResolutionCache u e = Some ?m'"
      by simp
    then have "resolveImportWithTypescript host u e f = (Inr (projectOfTypescriptModule u ?m'), u, [])"
      by (simp add: resolveImportWithTypescript_def)
    with r p same assms(2) show ?thesis
      by (simp add: projectOfTypescriptModule_cachesOnly)
  qed
qed

lemma typescriptFallback_npm_cache:
  assumes "typescriptFallback host t e f = (r, t', c)" and "k \<noteq> e"
  shows "npmResolutionCache t' k = npmResolutionCache t k"
proof (cases "config (tsConfig t) = None")
  case True
  with assms(1) have "requireFallback host t e f = (r, t', c)"
    by (simp add: typescriptFallback_def)
  from requireFallback_result [OF this] assms(2) show ?thesis by blast
next
  case False
  obtain r1 t1 c1 where ts: "resolveImportWithTypescript host t e f = (r1, t1, c1)"
    by (cases "resolveImportWithTypescript host t e f") auto
  have n1: "npmResolutionCache t1 = npmResolutionCache t"
    by (rule resolveImportWithTypescript_npm_cache [OF ts])
  show ?thesis
  proof (cases r1)
    case (Inl x)
    with assms(1) False ts have "t' = t1" by (simp add: typescriptFallback_def)
    with n1 show ?thesis by simp
  next
    case (Inr v)
    show ?thesis
    proof (cases "truthy v")
      case True
      with assms(1) False ts Inr have "t' = t1" by (simp add: typescriptFallback_def)
      with n1 show ?thesis by simp
    next
      case nt: False
      obtain r2 t2 c2 where rq: "requireFallback host t1 e f = (r2, t2, c2)"
        by (cases "requireFallback host t1 e f") auto
      from assms(1) False ts Inr nt rq have "t' = t2" by (simp add: typescriptFallback_def)
      with requireFallback_result [OF rq] assms(2) n1 show ?thesis by simp
    qed
  qed
qed

lemma typescriptFallback_again:
  assumes first: "typescriptFallback host t e f = (r, t', c)"
    and frame: "cachesOnly t u"
    and cache: "typescriptResolutionCache u e = typescriptResolutionCache t' e"
  shows "\<exists>u' c'. typescriptFallback host u e f = (r, u', c') \<and> set c' \<subseteq> set c \<and>
           ((\<exists>v. r = Inr v) \<longrightarrow> (\<forall>a b x. ResolveModuleByImport a b x \<notin> set c'))"
proof (cases "config (tsConfig t) = None")
  case True
  with frame have cu: "config (tsConfig u) = None" by (simp add: cachesOnly_def)
  from True first have rq: "requireFallback host t e f = (r, t', c)"
    by (simp add: typescriptFallback_def)
  obtain r2 u2 c2 where rq2: "requireFallback host u e f = (r2, u2, c2)"
    by (cases "requireFallback host u e f") auto
  from requireFallback_cachesOnly [OF frame, of host e f] rq rq2 have "r2 = r" and "c2 = c"
    by simp_all
  with rq2 cu requireFallback_result [OF rq2] show ?thesis
    by (simp add: typescriptFallback_def)
next
  case False
  with frame have cu: "config (tsConfig u) \<noteq> None" by (simp add: cachesOnly_def)
  obtain r1 t1 c1 where ts: "resolveImportWithTypescript host t e f = (r1, t1, c1)"
    by (cases "resolveImportWithTypescript host t e f") auto
  have f1: "cachesOnly t t1" by (rule resolveImportWithTypescript_frame [OF ts])
  show ?thesis
  proof (cases r1)
    case (Inl x)
    with first False ts have same: "r = Inl x" "t' = t1" "c = c1"
      by (simp_all add: typescriptFallback_def)
    with cache have "typescriptResolutionCache u e = typescriptResolutionCache t1 e" by simp
    from resolveImportWithTypescript_again [OF ts frame this] Inl
    have "resolveImportWithTypescript host u e f = (Inl x, u, c1)" by simp
    with cu same show ?thesis by (simp add: typescriptFallback_def)
  next
    case (Inr v)
    show ?thesis
    proof (cases "truthy v")
      case True
      with first False ts Inr have same: "r = Inr v" "t' = t1" "c = c1"
        by (simp_all add: typescriptFallback_def)
      with cache have "typescriptResolutionCache u e = typescriptResolutionCache t1 e" by simp
      from resolveImportWithTypescript_again [OF ts frame this] Inr
      have "resolveImportWithTypescript host u e f = (Inr v, u, [])" by simp
      with cu same True show ?thesis by (simp add: typescriptFallback_def)
    next
      case nt: False
      obtain r2 t2 c2 where rq: "requireFallback host t1 e f = (r2, t2, c2)"
        by (cases "requireFallback host t1 e f") auto
      from first False ts Inr nt rq have same: "r = r2" "t' = t2" "c = c1 @ c2"
        by (simp_all add: typescriptFallback_def)
      from requireFallback_result [OF rq] same
      have "typescriptResolutionCache t' = typescriptResolutionCache t1" by simp
      with cache have "typescriptResolutionCache u e = typescriptResolutionCache t1 e" by simp
      from resolveImportWithTypescript_again [OF ts frame this] Inr
      have ts2: "resolveImportWithTypescript host u e f = (Inr v, u, [])" by simp
      have "cachesOnly t1 u"
        using f1 frame by (simp add: cachesOnly_def)
      obtain r3 u3 c3 where rq3: "requireFallback host u e f = (r3, u3, c3)"
        by (cases "requireFallback host u e f") auto
      from requireFallback_cachesOnly [OF \<open>cachesOnly t1 u\<close>, of host e f] rq rq3
      have "r3 = r2" and "c3 = c2" by simp_all
      with rq3 ts2 cu nt same requireFallback_result [OF rq3] show ?thesis
        by (simp add: typescriptFallback_def)
    qed
  qed
qed

text \<open>
  C9 (as amended). With collaborators that are functions of their arguments, a second
  call of \<open>findProjectWithImport\<close> with the arguments of the first, on the locator the
  first call left, has the same outcome as the first. It makes no collaborator call that
  the first did not make; after a first call that returned, it does not call the language
  resolver; and it makes no collaborator call at all when the external-package strategy
  gave the first call a package, or when the first call made none.
\<close>

theorem repeated_call:
  assumes first: "findProjectWithImport host this importExpr projectRoot filePath = (r, this1, c1)"
    and second: "findProjectWithImport host this1 importExpr projectRoot filePath = (r', this2, c2)"
  shows "r' = r \<and> set c2 \<subseteq> set c1 \<and>
         ((\<exists>v. r = Inr v) \<longrightarrow> (\<forall>a b x. ResolveModuleByImport a b x \<notin> set c2)) \<and>
         (truthy (fst (findNpmPackage host this importExpr projectRoot)) \<longrightarrow> c2 = [])"
proof -
  have frame: "cachesOnly this this1"
    by (rule findProjectWithImport_cachesOnly [OF first])
  have paths_same: "findProjectUsingPaths host this1 importExpr = findProjectUsingPaths host this importExpr"
    by (rule findProjectUsingPaths_cachesOnly [OF frame])
  have module_same: "findProjectOfResolvedModule this1 p = findProjectOfResolvedModule this p" for p
    by (rule findProjectOfResolvedModule_cachesOnly [OF frame])
  show ?thesis
  proof (cases rule: findProjectWithImport_steps [of importExpr host this projectRoot filePath])
    case rel
    with first have "r = Inr (findProjectOfResolvedModule this (posix_join [dirname filePath, importExpr]))"
      by auto
    moreover from second rel(1)
    have "r' = Inr (findProjectOfResolvedModule this1 (posix_join [dirname filePath, importExpr]))"
      and "c2 = []"
      by (auto simp: findProjectWithImport_def Let_def)
    ultimately show ?thesis by (simp add: module_same)
  next
    case (thrown x)
    with first have "r = Inl x" by auto
    moreover from thrown paths_same have "findProjectUsingPaths host this1 importExpr = Inl x"
      by simp
    with second thrown(1) have "r' = Inl x" and "c2 = []"
      by (auto simp: findProjectWithImport_def)
    ultimately show ?thesis by simp
  next
    case (aliased v)
    with first have "r = Inr v" by auto
    moreover from aliased paths_same have "findProjectUsingPaths host this1 importExpr = Inr v"
      by simp
    with second aliased(1,3) have "r' = Inr v" and "c2 = []"
      by (auto simp: findProjectWithImport_def)
    ultimately show ?thesis by simp
  next
    case (builtin_name v)
    with first have "r = Inr None" by auto
    moreover from builtin_name paths_same have "findProjectUsingPaths host this1 importExpr = Inr v"
      by simp
    with second builtin_name(1,3,4) have "r' = Inr None" and "c2 = []"
      by (auto simp: findProjectWithImport_def)
    ultimately show ?thesis by simp
  next
    case (npm a v ta ca)
    with first have one: "r = Inr v" "this1 = ta" "c1 = ca"
      by auto
    have fa: "cachesOnly this ta" by (rule findNpmPackage_frame [OF npm(5)])
    then have "npmProjects ta = npmProjects this" by (simp add: cachesOnly_def)
    from findNpmPackage_again [OF npm(5) this] npm(6)
    obtain t' where again: "findNpmPackage host ta importExpr projectRoot = (v, t', [])"
      by auto
    from npm(2) paths_same one have "findProjectUsingPaths host ta importExpr = Inr a"
      by simp
    with second npm(1,3,4,6) one again have "r' = Inr v" and "c2 = []"
      by (auto simp: findProjectWithImport_def)
    with one show ?thesis by simp
  next
    case (fallback a v ta ca rb tb cb)
    with first have one: "r = rb" "this1 = tb" "c1 = ca @ cb"
      by auto
    have fb: "cachesOnly ta tb" by (rule typescriptFallback_frame [OF fallback(7)])
    from frame have np: "npmProjects tb = npmProjects this"
      using one by (simp add: cachesOnly_def)
    have "npmResolutionCache tb (npmCacheKey importExpr projectRoot)
        = npmResolutionCache ta (npmCacheKey importExpr projectRoot)"
      by (rule typescriptFallback_npm_cache [OF fallback(7) npmCacheKey_neq])
    from findNpmPackage_again [OF fallback(5) np this]
    obtain tc cc where n2: "findNpmPackage host tb importExpr projectRoot = (v, tc, cc)"
      and cc: "set cc \<subseteq> set ca"
      by auto
    have fc: "cachesOnly tb tc" by (rule findNpmPackage_frame [OF n2])
    have "cachesOnly ta tc"
      by (rule cachesOnly_trans [OF fb fc])
    moreover have "typescriptResolutionCache tc importExpr = typescriptResolutionCache tb importExpr"
      using findNpmPackage_ts_cache [OF n2] by simp
    ultimately obtain td cd where
      tf2: "typescriptFallback host tc importExpr filePath = (rb, td, cd)"
      and cd: "set cd \<subseteq> set cb"
      and nots: "(\<exists>v. rb = Inr v) \<longrightarrow> (\<forall>a b x. ResolveModuleByImport a b x \<notin> set cd)"
      using typescriptFallback_again [OF fallback(7)] by blast
    from fallback(2) paths_same one have "findProjectUsingPaths host tb importExpr = Inr a"
      by simp
    with second fallback(1,3,4,6) one n2 tf2 have two: "r' = rb" "c2 = cc @ cd"
      by (auto simp: findProjectWithImport_def)
    have "ResolveModuleByImport a b x \<notin> set cc" for a b x
      by (rule findNpmPackage_calls [OF n2])
    with one two cc cd nots fallback(5,6) show ?thesis
      by auto
  qed
qed

lemmas run_defs = findProjectWithImport_def isRelativePath_def alias_defs index_defs
  fallback_defs path_defs example_defs Let_def

section \<open>Repeated calls on examples\<close>

theorem repeated_call_witness:
  "fst (findProjectWithImport leftPadHost
          (fst (snd (findProjectWithImport leftPadHost leftPadLocator
                       ''left-pad'' ''apps/app1'' ''apps/app1/src/main.ts'')))
          ''left-pad'' ''apps/app1'' ''apps/app1/src/main.ts'')
     = fst (findProjectWithImport leftPadHost leftPadLocator
              ''left-pad'' ''apps/app1'' ''apps/app1/src/main.ts'') \<and>
   snd (snd (findProjectWithImport leftPadHost
          (fst (snd (findProjectWithImport leftPadHost leftPadLocator
                       ''left-pad'' ''apps/app1'' ''apps/app1/src/main.ts'')))
          ''left-pad'' ''apps/app1'' ''apps/app1/src/main.ts'')) = [] \<and>
   truthy (fst (findNpmPackage leftPadHost leftPadLocator ''left-pad'' ''apps/app1''))"
proof -
  let ?X1 = "findProjectWithImport leftPadHost leftPadLocator
               ''left-pad'' ''apps/app1'' ''apps/app1/src/main.ts''"
  let ?X2 = "findProjectWithImport leftPadHost (fst (snd ?X1))
               ''left-pad'' ''apps/app1'' ''apps/app1/src/main.ts''"
  have one: "?X1 = (fst ?X1, fst (snd ?X1), snd (snd ?X1))" by simp
  have two: "?X2 = (fst ?X2, fst (snd ?X2), snd (snd ?X2))" by simp
  have t: "truthy (fst (findNpmPackage leftPadHost leftPadLocator ''left-pad'' ''apps/app1''))"
    by (simp add: leftPadLocator_def leftPadHost_def run_defs)
  from repeated_call [OF one two] t show ?thesis by blast
qed

text \<open>
  C1, evaluated where it fails. On a host where nothing resolves, the first call for the
  specifier \<open>nope\<close> from the project \<open>apps/app1\<close> returns no match after calling the
  descriptor locator, the language resolver and the runtime resolver. It writes the
  no-match entry under the key \<open>nope\<close>, whereas \<open>findNpmPackage\<close> reads the key
  \<open>nope__apps/app1\<close>, which stays absent. The second call therefore calls the descriptor
  locator and the runtime resolver again; only the language resolution is remembered.
\<close>

theorem no_match_not_remembered:
  "fst (findProjectWithImport (quietHost None) (locatorOn (quietHost None) [(''app1'', ''apps/app1'')])
          ''nope'' ''apps/app1'' ''apps/app1/src/main.ts'') = Inr None \<and>
   snd (snd (findProjectWithImport (quietHost None) (locatorOn (quietHost None) [(''app1'', ''apps/app1'')])
          ''nope'' ''apps/app1'' ''apps/app1/src/main.ts'')) =
     [FindExternalPackageJsonPath ''nope'' ''/ws/apps/app1'',
      ResolveModuleByImport ''nope'' ''apps/app1/src/main.ts'' (Some ''/ws/tsconfig.base.json''),
      RequireResolve ''nope'' ''apps/app1/src''] \<and>
   npmResolutionCache
     (fst (snd (findProjectWithImport (quietHost None) (locatorOn (quietHost None) [(''app1'', ''apps/app1'')])
          ''nope'' ''apps/app1'' ''apps/app1/src/main.ts''))) ''nope'' = Some None \<and>
   npmCacheKey ''nope'' ''apps/app1'' = ''nope__apps/app1'' \<and>
   npmResolutionCache
     (fst (snd (findProjectWithImport (quietHost None) (locatorOn (quietHost None) [(''app1'', ''apps/app1'')])
          ''nope'' ''apps/app1'' ''apps/app1/src/main.ts''))) ''nope__apps/app1'' = None \<and>
   fst (findProjectWithImport (quietHost None)
          (fst (snd (findProjectWithImport (quietHost None)
                       (locatorOn (quietHost None) [(''app1'', ''apps/app1'')])
                       ''nope'' ''apps/app1'' ''apps/app1/src/main.ts'')))
          ''nope'' ''apps/app1'' ''apps/app1/src/main.ts'') = Inr None \<and>
   snd (snd (findProjectWithImport (quietHost None)
          (fst (snd (findProjectWithImport (quietHost None)
                       (locatorOn (quietHost None) [(''app1'', ''apps/app1'')])
                       ''nope'' ''apps/app1'' ''apps/app1/src/main.ts'')))
          ''nope'' ''apps/app1'' ''apps/app1/src/main.ts'')) =
     [FindExternalPackageJsonPath ''nope'' ''/ws/apps/app1'',
      RequireResolve ''nope'' ''apps/app1/src'']"
  by (simp add: run_defs)

text \<open>
  C9 as stated fails: a specifier that the runtime resolver maps into a project is
  resolved by the same descriptor lookup and the same runtime resolution on every call,
  since no cache records that outcome.
\<close>

theorem repeated_call_counterexample:
  "fst (findProjectWithImport linkedHost (locatorOn linkedHost [(''a'', ''libs/a'')])
          ''lib-a'' ''apps/app1'' ''apps/app1/src/main.ts'') = Inr (Some ''a'') \<and>
   fst (findProjectWithImport linkedHost
          (fst (snd (findProjectWithImport linkedHost (locatorOn linkedHost [(''a'', ''libs/a'')])
                       ''lib-a'' ''apps/app1'' ''apps/app1/src/main.ts'')))
          ''lib-a'' ''apps/app1'' ''apps/app1/src/main.ts'') = Inr (Some ''a'') \<and>
   snd (snd (findProjectWithImport linkedHost
          (fst (snd (findProjectWithImport linkedHost (locatorOn linkedHost [(''a'', ''libs/a'')])
                       ''lib-a'' ''apps/app1'' ''apps/app1/src/main.ts'')))
          ''lib-a'' ''apps/app1'' ''apps/app1/src/main.ts'')) =
     [FindExternalPackageJsonPath ''lib-a'' ''/ws/apps/app1'',
      RequireResolve ''lib-a'' ''apps/app1/src'']"
  by (simp add: linkedHost_def run_defs)

section \<open>Exceptions\<close>







section \<open>Installed-dependency directories in the strategies\<close>















end

